theory Spec2Isabelle
  imports Complex_Main "HOL-Library.Sublist" "HOL-Library.AList"
begin

text \<open>
  The agent pipeline of the command-line assistant: the class \<open>UltraAgent\<close> (intent analysis,
  project scan, prompt, call of the AI client, extraction and validation of code blocks,
  confirmation, file operations) and the usage tracking of \<open>ConfigManager\<close>. The functions
  are translated from the TypeScript source; the file store, the AI client and the other
  collaborators are explicit arguments, and every exception is a value.
\<close>

section \<open>JavaScript strings\<close>

text \<open>
  A JavaScript string is a sequence of UTF-16 code units. The model uses \<^typ>\<open>string\<close>,
  whose characters are 8-bit: it covers the strings whose code units are below 256 (ASCII
  and Latin-1), and \<open>length\<close> counts code units as \<open>String.prototype.length\<close> does.
\<close>

definition code_unit :: "char \<Rightarrow> nat" where
  "code_unit c = of_char c"

text \<open>\<open>String.prototype.toLowerCase\<close>, restricted to code units below 256: A-Z and the
  Latin-1 capitals 0xC0-0xDE (without the multiplication sign 0xD7) move up by 32.\<close>

definition toLowerChar :: "char \<Rightarrow> char" where
  "toLowerChar c =
     (let n = code_unit c
      in if (65 \<le> n \<and> n \<le> 90) \<or> (192 \<le> n \<and> n \<le> 222 \<and> n \<noteq> 215)
         then char_of (n + 32) else c)"

definition toLowerCase :: "string \<Rightarrow> string" where
  "toLowerCase s = map toLowerChar s"

text \<open>The \<open>Canonicalize\<close> operation of a regular expression with the \<open>i\<close> flag (no \<open>u\<close>
  flag): the upper-case mapping of a single code unit, kept only when the result is a
  single code unit of the same range. 0xB5, 0xDF and 0xFF have no such image below 256.\<close>

definition canonicalize :: "char \<Rightarrow> char" where
  "canonicalize c =
     (let n = code_unit c
      in if (97 \<le> n \<and> n \<le> 122) \<or> (224 \<le> n \<and> n \<le> 254 \<and> n \<noteq> 247)
         then char_of (n - 32) else c)"

text \<open>White space and line terminators (\<open>\s\<close>, \<open>trim\<close>): TAB, LF, VT, FF, CR, SPACE, NBSP.\<close>

definition isWhiteSpace :: "char \<Rightarrow> bool" where
  "isWhiteSpace c = (let n = code_unit c in (9 \<le> n \<and> n \<le> 13) \<or> n = 32 \<or> n = 160)"

definition isLineTerminator :: "char \<Rightarrow> bool" where
  "isLineTerminator c = (let n = code_unit c in n = 10 \<or> n = 13)"

definition isDigit :: "char \<Rightarrow> bool" where
  "isDigit c = (let n = code_unit c in 48 \<le> n \<and> n \<le> 57)"

definition isAlpha :: "char \<Rightarrow> bool" where
  "isAlpha c = (let n = code_unit c in (65 \<le> n \<and> n \<le> 90) \<or> (97 \<le> n \<and> n \<le> 122))"

definition isAlnum :: "char \<Rightarrow> bool" where
  "isAlnum c = (isAlpha c \<or> isDigit c)"

text \<open>The class \<open>\w\<close>.\<close>

definition isWordChar :: "char \<Rightarrow> bool" where
  "isWordChar c = (isAlnum c \<or> c = CHR ''_'')"

definition trim :: "string \<Rightarrow> string" where
  "trim s = rev (dropWhile isWhiteSpace (rev (dropWhile isWhiteSpace s)))"

definition startsWith :: "string \<Rightarrow> string \<Rightarrow> bool" where
  "startsWith s p = prefix p s"

definition endsWith :: "string \<Rightarrow> string \<Rightarrow> bool" where
  "endsWith s p = suffix p s"

fun includes_str :: "string \<Rightarrow> string \<Rightarrow> bool" where
  "includes_str [] p = (p = [])"
| "includes_str (c # cs) p = (prefix p (c # cs) \<or> includes_str cs p)"

text \<open>\<open>s.split(sep)\<close> for a separator of one character: never empty, \<open>''''.split(sep) = ['''']\<close>.\<close>

fun split_char :: "char \<Rightarrow> string \<Rightarrow> string list" where
  "split_char sep [] = [[]]"
| "split_char sep (c # cs) =
     (if c = sep then [] # split_char sep cs
      else (case split_char sep cs of
              [] \<Rightarrow> [[c]]
            | p # ps \<Rightarrow> (c # p) # ps))"

fun join :: "string \<Rightarrow> string list \<Rightarrow> string" where
  "join sep [] = []"
| "join sep [x] = x"
| "join sep (x # y # ys) = x @ sep @ join sep (y # ys)"

text \<open>\<open>s.substring(a, b)\<close> for \<open>a \<le> b\<close>; \<open>s.replace(/c/g, d)\<close> for single characters.\<close>

definition substring :: "string \<Rightarrow> nat \<Rightarrow> nat \<Rightarrow> string" where
  "substring s a b = take (b - a) (drop a s)"

definition replace_char :: "char \<Rightarrow> string \<Rightarrow> string \<Rightarrow> string" where
  "replace_char c d s = concat (map (\<lambda>x. if x = c then d else [x]) s)"

section \<open>Regular expressions\<close>

text \<open>
  The patterns of the program are sequences of literals, alternations of literals, quantified
  character classes, capture groups and the end anchor. The matcher below is the
  backtracking matcher of ECMAScript for that fragment: a greedy quantifier tries the
  longest repetition first, a lazy one the shortest, and the first success wins. A class
  used under the \<open>i\<close> flag is given closed under case.
\<close>

datatype ritem =
    Lit string
  | Alt "string list"
  | Rep "char \<Rightarrow> bool" nat "nat option" bool
  | Open nat
  | Close nat
  | EndAnchor

record rflags =
  ignoreCase :: bool
  multiline :: bool

record rstate =
  opened :: "(nat \<times> string) list"
  captures :: "(nat \<times> string) list"

definition char_eq :: "rflags \<Rightarrow> char \<Rightarrow> char \<Rightarrow> bool" where
  "char_eq fl a b = (if ignoreCase fl then canonicalize a = canonicalize b else a = b)"

fun lit_at :: "rflags \<Rightarrow> string \<Rightarrow> string \<Rightarrow> bool" where
  "lit_at fl [] s = True"
| "lit_at fl (l # ls) [] = False"
| "lit_at fl (l # ls) (c # cs) = (char_eq fl l c \<and> lit_at fl ls cs)"

definition rep_counts :: "(char \<Rightarrow> bool) \<Rightarrow> nat \<Rightarrow> nat option \<Rightarrow> bool \<Rightarrow> string \<Rightarrow> nat list" where
  "rep_counts cls lo hi greedy s =
     (let avail = length (takeWhile cls s);
          mx = (case hi of None \<Rightarrow> avail | Some h \<Rightarrow> min h avail)
      in if greedy then rev [lo ..< Suc mx] else [lo ..< Suc mx])"

definition close_group :: "nat \<Rightarrow> string \<Rightarrow> rstate \<Rightarrow> rstate" where
  "close_group k s st =
     (case map_of (opened st) k of
        None \<Rightarrow> st
      | Some s0 \<Rightarrow> st\<lparr>captures := (k, take (length s0 - length s) s0) # captures st\<rparr>)"

fun first_match :: "('a \<Rightarrow> 'b option) \<Rightarrow> 'a list \<Rightarrow> 'b option" where
  "first_match f [] = None"
| "first_match f (x # xs) = (case f x of Some y \<Rightarrow> Some y | None \<Rightarrow> first_match f xs)"

text \<open>\<open>rmatch fl items s st\<close> matches the items at the start of \<open>s\<close> and gives the rest of
  \<open>s\<close> behind the match.\<close>

primrec rmatch :: "rflags \<Rightarrow> ritem list \<Rightarrow> string \<Rightarrow> rstate \<Rightarrow> (string \<times> rstate) option" where
  "rmatch fl [] s st = Some (s, st)"
| "rmatch fl (it # r) s st =
     (case it of
        Lit l \<Rightarrow> if lit_at fl l s then rmatch fl r (drop (length l) s) st else None
      | Alt ls \<Rightarrow>
          first_match (\<lambda>l. if lit_at fl l s then rmatch fl r (drop (length l) s) st else None) ls
      | Rep cls lo hi greedy \<Rightarrow>
          first_match (\<lambda>n. rmatch fl r (drop n s) st) (rep_counts cls lo hi greedy s)
      | Open k \<Rightarrow> rmatch fl r s (st\<lparr>opened := (k, s) # opened st\<rparr>)
      | Close k \<Rightarrow> rmatch fl r s (close_group k s st)
      | EndAnchor \<Rightarrow>
          if s = [] \<or> (multiline fl \<and> isLineTerminator (hd s)) then rmatch fl r s st else None)"

text \<open>A match: the index where it starts, the index where it ends, and the captures.\<close>

record rresult =
  index :: nat
  endIndex :: nat
  groups :: "(nat \<times> string) list"

text \<open>The leftmost match in \<open>s\<close>, which starts at index \<open>i\<close> of the whole string.\<close>

fun rsearch :: "rflags \<Rightarrow> ritem list \<Rightarrow> nat \<Rightarrow> string \<Rightarrow> rresult option" where
  "rsearch fl items i [] =
     (case rmatch fl items [] \<lparr>opened = [], captures = []\<rparr> of
        None \<Rightarrow> None
      | Some (rest, st) \<Rightarrow> Some \<lparr>index = i, endIndex = i, groups = captures st\<rparr>)"
| "rsearch fl items i (c # cs) =
     (case rmatch fl items (c # cs) \<lparr>opened = [], captures = []\<rparr> of
        None \<Rightarrow> rsearch fl items (Suc i) cs
      | Some (rest, st) \<Rightarrow>
          Some \<lparr>index = i, endIndex = i + (length (c # cs) - length rest), groups = captures st\<rparr>)"

text \<open>\<open>pattern.exec(s)\<close> of a global pattern whose \<open>lastIndex\<close> is given, and \<open>s.match(pattern)\<close>
  of a pattern that is not global.\<close>

definition regex_exec :: "rflags \<Rightarrow> ritem list \<Rightarrow> string \<Rightarrow> nat \<Rightarrow> rresult option" where
  "regex_exec fl items s lastIndex =
     (if lastIndex > length s then None else rsearch fl items lastIndex (drop lastIndex s))"

definition regex_match :: "rflags \<Rightarrow> ritem list \<Rightarrow> string \<Rightarrow> rresult option" where
  "regex_match fl items s = rsearch fl items 0 s"

text \<open>\<open>pattern.test(s)\<close> for a pattern that is an alternation of literals.\<close>

definition regex_test :: "rflags \<Rightarrow> ritem list \<Rightarrow> string \<Rightarrow> bool" where
  "regex_test fl items s = (regex_match fl items s \<noteq> None)"

definition group :: "rresult \<Rightarrow> nat \<Rightarrow> string" where
  "group m k = (case map_of (groups m) k of None \<Rightarrow> [] | Some g \<Rightarrow> g)"

section \<open>Data model\<close>

record ActionFlags =
  develop :: bool
  debug :: bool
  optimize :: bool
  refactor :: bool
  test :: bool
  document :: bool
  analyze :: bool

record CommandIntent =
  targetFolder :: "string option"
  targetFile :: "string option"
  actions :: ActionFlags
  fullCommand :: string
  confidence :: rat

record Metadata =
  lineCount :: nat
  charCount :: nat
  hasImports :: bool
  hasFunctions :: bool

record CodeBlock =
  code :: string
  language :: string
  path :: "string option"
  metadata :: Metadata

record ValidationResult =
  isValid :: bool
  isComplete :: bool
  warnings :: "string list"
  errors :: "string list"
  suggestions :: "string list"

text \<open>A JavaScript value used as a condition: \<open>null\<close>, \<open>undefined\<close> and the empty string
  are false.\<close>

definition truthy :: "string option \<Rightarrow> bool" where
  "truthy v = (case v of None \<Rightarrow> False | Some s \<Rightarrow> s \<noteq> [])"

section \<open>Intent analysis\<close>

definition flags_i :: rflags where
  "flags_i = \<lparr>ignoreCase = True, multiline = False\<rparr>"

definition flags_none :: rflags where
  "flags_none = \<lparr>ignoreCase = False, multiline = False\<rparr>"

definition flags_im :: rflags where
  "flags_im = \<lparr>ignoreCase = True, multiline = True\<rparr>"

definition oneOrMore :: "(char \<Rightarrow> bool) \<Rightarrow> ritem" where
  "oneOrMore cls = Rep cls 1 None True"

definition zeroOrMore :: "(char \<Rightarrow> bool) \<Rightarrow> ritem" where
  "zeroOrMore cls = Rep cls 0 None True"

text \<open>The two folder patterns and the two file patterns of \<open>analyzeIntent\<close>, all with the
  \<open>i\<close> flag, so that \<open>[a-z]\<close> is the class of the ASCII letters.\<close>

definition folderPatterns :: "ritem list list" where
  "folderPatterns =
     [[Alt [''pasta'', ''folder'', ''dir'', ''directory'',
            ''diret'' @ [CHR 0xF3] @ ''rio'', ''diretorio''],
       oneOrMore isWhiteSpace, Open 1, oneOrMore (\<lambda>c. \<not> isWhiteSpace c), Close 1],
      [Alt [''em'', ''in''], oneOrMore isWhiteSpace,
       Open 1, oneOrMore (\<lambda>c. isAlnum c \<or> c \<in> set ''_-/'' \<or> c = CHR 0x5C), Close 1, Lit ''/'']]"

definition filePatterns :: "ritem list list" where
  "filePatterns =
     [[Alt [''arquivo'', ''file''], oneOrMore isWhiteSpace,
       Open 1, oneOrMore (\<lambda>c. \<not> isWhiteSpace c), Lit ''.'', oneOrMore isAlpha, Close 1],
      [Open 1, oneOrMore (\<lambda>c. isAlnum c \<or> c \<in> set ''_-''), Lit ''.'', Rep isAlpha 2 (Some 4) True,
       Close 1]]"

text \<open>The loop \<open>for (const pattern of patterns) { const match = command.match(pattern);
  if (match) { target = match[1]; break; } }\<close>.\<close>

fun first_capture :: "ritem list list \<Rightarrow> string \<Rightarrow> string option" where
  "first_capture [] command = None"
| "first_capture (pattern # patterns) command =
     (case regex_match flags_i pattern command of
        Some m \<Rightarrow> Some (group m 1)
      | None \<Rightarrow> first_capture patterns command)"

datatype action = Develop | Debug | Optimize | Refactor | Test | Document | Analyze

text \<open>\<open>actionPatterns\<close>, in the order of \<open>Object.entries\<close>: one pattern for each action, an
  alternation of keywords.\<close>

definition actionPatterns :: "(action \<times> ritem list list) list" where
  "actionPatterns =
     [(Develop, [[Alt [''desenvolv'', ''cri'', ''implement'', ''cod'', ''faz'', ''fazer'',
                       ''build'', ''create'']]]),
      (Debug, [[Alt [''debug'', ''corrig'', ''fix'', ''consert'', ''erro'', ''bug'', ''resolve'']]]),
      (Optimize, [[Alt [''otimiz'', ''melhor'', ''performance'', ''rapido'',
                        ''r'' @ [CHR 0xE1] @ ''pido'', ''speed'', ''faster'']]]),
      (Refactor, [[Alt [''refator'', ''limpar'', ''organiz'', ''estrutur'', ''clean'',
                        ''reorganize'']]]),
      (Test, [[Alt [''test'', ''testa'', ''unit'', ''integration'', ''e2e'']]]),
      (Document, [[Alt [''document'', ''doc'', ''coment'', ''readme'', ''explain'']]]),
      (Analyze, [[Alt [''analis'', ''revis'', ''verific'', ''check'', ''review'', ''audit'']]])]"

definition noActions :: ActionFlags where
  "noActions = \<lparr>develop = False, debug = False, optimize = False, refactor = False,
     test = False, document = False, analyze = False\<rparr>"

fun setAction :: "action \<Rightarrow> ActionFlags \<Rightarrow> ActionFlags" where
  "setAction Develop f = f\<lparr>develop := True\<rparr>"
| "setAction Debug f = f\<lparr>debug := True\<rparr>"
| "setAction Optimize f = f\<lparr>optimize := True\<rparr>"
| "setAction Refactor f = f\<lparr>refactor := True\<rparr>"
| "setAction Test f = f\<lparr>test := True\<rparr>"
| "setAction Document f = f\<lparr>document := True\<rparr>"
| "setAction Analyze f = f\<lparr>analyze := True\<rparr>"

text \<open>The inner loop: does one of the patterns of an action match the normalised command?\<close>

fun anyPatternMatches :: "ritem list list \<Rightarrow> string \<Rightarrow> bool" where
  "anyPatternMatches [] normalized = False"
| "anyPatternMatches (pattern # patterns) normalized =
     (if regex_test flags_i pattern normalized then True
      else anyPatternMatches patterns normalized)"

text \<open>The outer loop, with the flags and \<open>matchCount\<close> as its state.\<close>

fun detectActions :: "(action \<times> ritem list list) list \<Rightarrow> string \<Rightarrow> ActionFlags \<times> nat
    \<Rightarrow> ActionFlags \<times> nat" where
  "detectActions [] normalized st = st"
| "detectActions ((a, patterns) # rest) normalized (flags, matchCount) =
     (if anyPatternMatches patterns normalized
      then detectActions rest normalized (setAction a flags, matchCount + 1)
      else detectActions rest normalized (flags, matchCount))"

text \<open>\<open>UltraAgent.analyzeIntent\<close>. The confidence is the quotient as a rational number.\<close>

definition analyzeIntent :: "string \<Rightarrow> CommandIntent" where
  "analyzeIntent command =
     (let normalized = toLowerCase command;
          targetFolder = first_capture folderPatterns command;
          targetFile = first_capture filePatterns command;
          (flags, matchCount) = detectActions actionPatterns normalized (noActions, 0);
          confidence = min 1 (of_nat matchCount / 3)
      in \<lparr>targetFolder = targetFolder, targetFile = targetFile, actions = flags,
          fullCommand = command, confidence = confidence\<rparr>)"

text \<open>The flag of an action.\<close>

fun getAction :: "action \<Rightarrow> ActionFlags \<Rightarrow> bool" where
  "getAction Develop f = develop f"
| "getAction Debug f = debug f"
| "getAction Optimize f = optimize f"
| "getAction Refactor f = refactor f"
| "getAction Test f = test f"
| "getAction Document f = document f"
| "getAction Analyze f = analyze f"

text \<open>The number of action flags that are set: the matched action count of the specification.\<close>

definition matchedActionCount :: "ActionFlags \<Rightarrow> nat" where
  "matchedActionCount f =
     length (filter id [develop f, debug f, optimize f, refactor f, test f, document f, analyze f])"

text \<open>No pattern of any action matches the normalised command.\<close>

definition noKeywordMatches :: "string \<Rightarrow> bool" where
  "noKeywordMatches command =
     (\<forall>(a, patterns) \<in> set actionPatterns. \<not> anyPatternMatches patterns (toLowerCase command))"

text \<open>The number of actions of \<open>actionPatterns\<close> that have a pattern matching the command in
  lower case.\<close>

definition matchedPatternCount :: "string \<Rightarrow> nat" where
  "matchedPatternCount command =
     length (filter (\<lambda>(a, patterns). anyPatternMatches patterns (toLowerCase command))
       actionPatterns)"
section \<open>Confirmation prompt\<close>

text \<open>\<open>UltraAgent.requestConfirmation\<close>: the answer typed by the user decides.\<close>

definition requestConfirmation :: "string \<Rightarrow> bool" where
  "requestConfirmation answer = (toLowerCase answer = ''y'' \<or> toLowerCase answer = ''s'')"

section \<open>File system\<close>

text \<open>
  The file store of Node's \<open>fs\<close> and \<open>path\<close> modules on a POSIX system. A path is the list of
  its segments from the root, already normalised; a store lists its entries in the order in
  which a directory listing returns them. The root directory always exists. Permissions
  are not modelled: an operation fails only for the shape of the store.
\<close>

type_synonym path = "string list"

datatype node = File string | Dir

type_synonym filesystem = "(path \<times> node) list"

datatype fs_error = ENOENT | ENOTDIR | EISDIR | EEXIST

datatype error =
    FsError fs_error
  | SyntaxError
  | TypeError
  | ConfigError string
  | AIProviderError string

definition lookup :: "filesystem \<Rightarrow> path \<Rightarrow> node option" where
  "lookup fs p = (if p = [] then Some Dir else map_of fs p)"

definition existsSync :: "filesystem \<Rightarrow> path \<Rightarrow> bool" where
  "existsSync fs p = (lookup fs p \<noteq> None)"

definition statSync :: "filesystem \<Rightarrow> path \<Rightarrow> fs_error + node" where
  "statSync fs p = (case lookup fs p of None \<Rightarrow> Inl ENOENT | Some n \<Rightarrow> Inr n)"

definition readdirSync :: "filesystem \<Rightarrow> path \<Rightarrow> fs_error + string list" where
  "readdirSync fs p =
     (case lookup fs p of
        None \<Rightarrow> Inl ENOENT
      | Some (File c) \<Rightarrow> Inl ENOTDIR
      | Some Dir \<Rightarrow> Inr (remdups (map (\<lambda>(q, n). last q) (filter (\<lambda>(q, n). q \<noteq> [] \<and> butlast q = p) fs))))"

definition readFileSync :: "filesystem \<Rightarrow> path \<Rightarrow> fs_error + string" where
  "readFileSync fs p =
     (case lookup fs p of
        None \<Rightarrow> Inl ENOENT
      | Some Dir \<Rightarrow> Inl EISDIR
      | Some (File c) \<Rightarrow> Inr c)"

text \<open>\<open>fs.writeFileSync(p, c)\<close>: the parent must be a directory and \<open>p\<close> must not be one; the
  content of an existing file is replaced.\<close>

definition writeFileSync :: "filesystem \<Rightarrow> path \<Rightarrow> string \<Rightarrow> fs_error + filesystem" where
  "writeFileSync fs p c =
     (case lookup fs p of
        Some Dir \<Rightarrow> Inl EISDIR
      | _ \<Rightarrow>
         (case lookup fs (butlast p) of
            None \<Rightarrow> Inl ENOENT
          | Some (File c') \<Rightarrow> Inl ENOTDIR
          | Some Dir \<Rightarrow> Inr (AList.update p (File c) fs)))"

text \<open>\<open>fs.mkdirSync(p, { recursive: true })\<close>: every missing directory on the way to \<open>p\<close> is
  created; a file on the way is an error.\<close>

fun mkdirs :: "filesystem \<Rightarrow> path \<Rightarrow> string list \<Rightarrow> fs_error + filesystem" where
  "mkdirs fs done [] = Inr fs"
| "mkdirs fs done (s # ss) =
     (case lookup fs (done @ [s]) of
        Some (File c) \<Rightarrow> Inl (if ss = [] then EEXIST else ENOTDIR)
      | Some Dir \<Rightarrow> mkdirs fs (done @ [s]) ss
      | None \<Rightarrow> mkdirs (fs @ [(done @ [s], Dir)]) (done @ [s]) ss)"

definition mkdirSync :: "filesystem \<Rightarrow> path \<Rightarrow> fs_error + filesystem" where
  "mkdirSync fs p = mkdirs fs [] p"

text \<open>The size in bytes of a text written as UTF-8.\<close>

definition utf8_size :: "string \<Rightarrow> nat" where
  "utf8_size s = sum_list (map (\<lambda>c. if code_unit c < 128 then 1 else 2) s)"

text \<open>\<open>path.join(dir, p)\<close> for a normalised directory: the segments of \<open>p\<close> are appended, empty
  segments and \<open>.\<close> are dropped, and \<open>..\<close> removes the last segment (none at the root).\<close>

definition join_step :: "path \<Rightarrow> string \<Rightarrow> path" where
  "join_step acc s =
     (if s = [] \<or> s = ''.'' then acc else if s = ''..'' then butlast acc else acc @ [s])"

definition path_join :: "path \<Rightarrow> string \<Rightarrow> path" where
  "path_join dir p = foldl join_step dir (split_char CHR ''/'' p)"

definition dirname :: "path \<Rightarrow> path" where
  "dirname p = butlast p"

definition basename :: "path \<Rightarrow> string" where
  "basename p = (if p = [] then [] else last p)"

text \<open>\<open>path.relative(from, to)\<close> for a path \<open>to\<close> below \<open>from\<close>, as a string.\<close>

definition path_relative :: "path \<Rightarrow> path \<Rightarrow> string" where
  "path_relative from to = join ''/'' (drop (length from) to)"

section \<open>Project scan\<close>

definition RELEVANT_EXTENSIONS :: "string list" where
  "RELEVANT_EXTENSIONS = [''.ts'', ''.tsx'', ''.js'', ''.jsx'', ''.vue'', ''.py'', ''.java'',
     ''.go'', ''.rs'', ''.c'', ''.cpp'', ''.cs'']"

definition IGNORE_DIRECTORIES :: "string list" where
  "IGNORE_DIRECTORIES = [''node_modules'', ''.git'', ''dist'', ''build'', ''out'', ''.next'',
     ''coverage'', ''.vscode'', ''target'', ''vendor'']"

definition MAX_SCAN_FILES :: nat where
  "MAX_SCAN_FILES = 50"

definition MAX_SCAN_DEPTH :: nat where
  "MAX_SCAN_DEPTH = 4"

definition MIN_CODE_LENGTH :: nat where
  "MIN_CODE_LENGTH = 200"

definition MAX_CONTEXT_SIZE :: nat where
  "MAX_CONTEXT_SIZE = 3000"

record ProjectMetadata =
  fileCount :: nat
  codeFileCount :: nat
  totalSize :: nat

record ProjectContext =
  root :: path
  files :: "string list"
  technologies :: "string list"
  projectMetadata :: ProjectMetadata

definition initializeContext :: "path \<Rightarrow> ProjectContext" where
  "initializeContext currentDir =
     \<lparr>root = currentDir, files = [], technologies = [],
      projectMetadata = \<lparr>fileCount = 0, codeFileCount = 0, totalSize = 0\<rparr>\<rparr>"

definition isRelevantFile :: "string \<Rightarrow> bool" where
  "isRelevantFile filename = list_ex (\<lambda>ext. endsWith filename ext) RELEVANT_EXTENSIONS"

definition shouldIgnoreItem :: "string \<Rightarrow> bool" where
  "shouldIgnoreItem name = (name \<in> set IGNORE_DIRECTORIES \<or> startsWith name ''.'')"

text \<open>The three statements that record a relevant file.\<close>

definition collectFile :: "string \<Rightarrow> nat \<Rightarrow> ProjectContext \<Rightarrow> ProjectContext" where
  "collectFile relativePath sz ctx =
     ctx\<lparr>files := files ctx @ [relativePath],
         projectMetadata := (projectMetadata ctx)
           \<lparr>codeFileCount := codeFileCount (projectMetadata ctx) + 1,
            totalSize := totalSize (projectMetadata ctx) + sz\<rparr>\<rparr>"

text \<open>\<open>UltraAgent.scanDirectory\<close> and its loop over the items of a directory. The project
  context is the state; an error of \<open>readdirSync\<close> or \<open>statSync\<close> is caught and skipped.\<close>

function scanDirectory :: "filesystem \<Rightarrow> path \<Rightarrow> path \<Rightarrow> nat \<Rightarrow> ProjectContext \<Rightarrow> ProjectContext"
  and scanItems :: "filesystem \<Rightarrow> path \<Rightarrow> path \<Rightarrow> nat \<Rightarrow> string list \<Rightarrow> ProjectContext \<Rightarrow> ProjectContext"
where
  "scanDirectory fs currentDir dir depth ctx =
     (if depth > MAX_SCAN_DEPTH \<or> length (files ctx) \<ge> MAX_SCAN_FILES then ctx
      else (case readdirSync fs dir of
              Inl e \<Rightarrow> ctx
            | Inr items \<Rightarrow> scanItems fs currentDir dir depth items ctx))"
| "scanItems fs currentDir dir depth [] ctx = ctx"
| "scanItems fs currentDir dir depth (item # items) ctx =
     (if shouldIgnoreItem item then scanItems fs currentDir dir depth items ctx
      else (case statSync fs (dir @ [item]) of
              Inl e \<Rightarrow> scanItems fs currentDir dir depth items ctx
            | Inr Dir \<Rightarrow>
                scanItems fs currentDir dir depth items
                  (scanDirectory fs currentDir (dir @ [item]) (depth + 1) ctx)
            | Inr (File content) \<Rightarrow>
                if isRelevantFile item
                then scanItems fs currentDir dir depth items
                       (collectFile (path_relative currentDir (dir @ [item])) (utf8_size content) ctx)
                else scanItems fs currentDir dir depth items ctx))"
  by pat_completeness auto
termination
  by (relation "measures
        [\<lambda>x. case x of
            Inl (fs, cur, dir, depth, ctx) \<Rightarrow> if depth > 4 then 0 else 2 * (5 - depth) + 1
          | Inr (fs, cur, dir, depth, items, ctx) \<Rightarrow> if depth > 4 then 1 else 2 * (5 - depth),
         \<lambda>x. case x of
            Inl (fs, cur, dir, depth, ctx) \<Rightarrow> 0
          | Inr (fs, cur, dir, depth, items, ctx) \<Rightarrow> length items]")
     (auto simp: MAX_SCAN_DEPTH_def)

text \<open>The manifest \<open>package.json\<close> as \<open>JSON.parse\<close> gives it: the keys of \<open>dependencies\<close> and
  of \<open>devDependencies\<close>, each with the truth value of its entry.\<close>

record Manifest =
  dependencies :: "(string \<times> bool) list"
  devDependencies :: "(string \<times> bool) list"

definition techMap :: "(string \<times> string) list" where
  "techMap =
     [(''react'', ''React''), (''react-dom'', ''React''), (''next'', ''Next.js''),
      (''vue'', ''Vue.js''), (''nuxt'', ''Nuxt.js''), (''express'', ''Express''),
      (''fastify'', ''Fastify''), (''nest'', ''NestJS''), (''typescript'', ''TypeScript''),
      (''@types/node'', ''Node.js''), (''vite'', ''Vite''), (''webpack'', ''Webpack''),
      (''tailwindcss'', ''Tailwind CSS''), (''prisma'', ''Prisma''), (''mongoose'', ''MongoDB'')]"

text \<open>\<open>allDeps[dep]\<close> of the spread \<open>{...dependencies, ...devDependencies}\<close> as a condition.\<close>

definition allDeps :: "Manifest \<Rightarrow> string \<Rightarrow> bool" where
  "allDeps m dep =
     (case map_of (devDependencies m) dep of
        Some v \<Rightarrow> v
      | None \<Rightarrow> (case map_of (dependencies m) dep of Some v \<Rightarrow> v | None \<Rightarrow> False))"

text \<open>\<open>UltraAgent.detectTechnologies\<close>; \<open>parseManifest\<close> stands for \<open>JSON.parse\<close> on the text
  of the manifest. Every error is caught and leaves the context as it is.\<close>

definition detectTechnologies ::
  "(string \<Rightarrow> error + Manifest) \<Rightarrow> filesystem \<Rightarrow> path \<Rightarrow> ProjectContext \<Rightarrow> ProjectContext" where
  "detectTechnologies parseManifest fs currentDir ctx =
     (let packagePath = path_join currentDir ''package.json''
      in if \<not> existsSync fs packagePath then ctx
         else (case readFileSync fs packagePath of
                 Inl e \<Rightarrow> ctx
               | Inr packageContent \<Rightarrow>
                  (case parseManifest packageContent of
                     Inl e \<Rightarrow> ctx
                   | Inr packageJson \<Rightarrow>
                       ctx\<lparr>technologies :=
                         remdups (map snd (filter (\<lambda>(dep, tech). allDeps packageJson dep) techMap))\<rparr>)))"

text \<open>\<open>UltraAgent.scanProject\<close>.\<close>

definition scanProject ::
  "(string \<Rightarrow> error + Manifest) \<Rightarrow> filesystem \<Rightarrow> path \<Rightarrow> ProjectContext" where
  "scanProject parseManifest fs currentDir =
     (let ctx = scanDirectory fs currentDir currentDir 0
                  (detectTechnologies parseManifest fs currentDir (initializeContext currentDir))
      in ctx\<lparr>projectMetadata := (projectMetadata ctx)\<lparr>fileCount := length (files ctx)\<rparr>\<rparr>)"

section \<open>Prompt\<close>

definition digit_char :: "nat \<Rightarrow> char" where
  "digit_char d = char_of (48 + d)"

text \<open>A number in a template literal: its decimal digits.\<close>

function show_nat :: "nat \<Rightarrow> string" where
  "show_nat n = (if n < 10 then [digit_char n] else show_nat (n div 10) @ [digit_char (n mod 10)])"
  by pat_completeness auto
termination
  by (relation "measure id") auto

definition newline :: string where
  "newline = [CHR 0x0A]"

definition fence :: string where
  "fence = [CHR 0x60, CHR 0x60, CHR 0x60]"

text \<open>\<open>UltraAgent.buildContextSection\<close>.\<close>

definition buildContextSection :: "path \<Rightarrow> ProjectContext \<Rightarrow> CommandIntent \<Rightarrow> string" where
  "buildContextSection currentDir ctx intent =
     join newline
       ([''Root: '' @ basename currentDir]
        @ (if technologies ctx \<noteq> []
           then [''Technologies: '' @ join '', '' (technologies ctx)] else [])
        @ [''Files: '' @ show_nat (length (files ctx)) @ '' code files'']
        @ (if truthy (targetFolder intent)
           then [''Target Folder: '' @ the (targetFolder intent)] else [])
        @ (if truthy (targetFile intent)
           then [''Target File: '' @ the (targetFile intent)] else [])
        @ (if files ctx \<noteq> []
           then [newline @ ''Relevant Files:''] @ map (\<lambda>f. ''  - '' @ f) (take 15 (files ctx))
           else []))"

text \<open>\<open>UltraAgent.buildActionDescription\<close>.\<close>

definition buildActionDescription :: "ActionFlags \<Rightarrow> string" where
  "buildActionDescription a =
     (let tasks =
            (if develop a then [''Develop/implement new functionality''] else [])
          @ (if debug a then [''Debug and fix errors''] else [])
          @ (if optimize a then [''Optimize performance''] else [])
          @ (if refactor a then [''Refactor and clean code''] else [])
          @ (if test a then [''Create comprehensive tests''] else [])
          @ (if document a then [''Add documentation''] else [])
          @ (if analyze a then [''Analyze and review code''] else [])
      in if tasks \<noteq> [] then join (newline @ ''- '') tasks else ''General code improvement'')"

text \<open>\<open>UltraAgent.buildPrompt\<close>: the template, line by line.\<close>

definition buildPrompt :: "path \<Rightarrow> ProjectContext \<Rightarrow> CommandIntent \<Rightarrow> string \<Rightarrow> string \<Rightarrow> string" where
  "buildPrompt currentDir ctx intent originalCommand targetContent =
     join newline
       [''You are an expert software engineer. Execute this task with precision and completeness.'',
        '''',
        ''COMMAND:'',
        originalCommand,
        '''',
        ''PROJECT CONTEXT:'',
        buildContextSection currentDir ctx intent,
        '''',
        (if targetContent \<noteq> []
         then join newline [''CURRENT FILE CONTENT:'', fence, targetContent, fence, '''']
         else ''''),
        '''',
        ''TASK REQUIREMENTS:'',
        buildActionDescription (actions intent),
        '''',
        ''CRITICAL INSTRUCTIONS:'',
        ''1. Analyze existing code structure and patterns'',
        ''2. Identify all issues and improvement opportunities'',
        ''3. Implement complete, production-ready solutions'',
        ''4. Return FULL file content, not snippets'',
        ''5. Include ALL necessary imports and dependencies'',
        ''6. Follow language-specific best practices'',
        ''7. Ensure code is immediately usable'',
        '''',
        ''MANDATORY RESPONSE FORMAT:'',
        '''',
        ''## Analysis'',
        ''[Detailed analysis of the problem/task]'',
        '''',
        ''## Changes Made'',
        ''[Comprehensive list of all modifications]'',
        '''',
        ''## Code'',
        ''File: [exact/path/to/file.ext]'',
        fence @ ''[language]'',
        ''[COMPLETE FILE CODE HERE]'',
        fence,
        '''',
        ''## Next Steps'',
        ''[Recommended follow-up actions]'',
        '''',
        ''QUALITY REQUIREMENTS:'',
        ''- Complete, working code (no placeholders)'',
        ''- Proper error handling'',
        ''- Type safety (if applicable)'',
        ''- Clean, maintainable structure'',
        ''- Production-ready quality'']"

text \<open>\<open>UltraAgent.estimateTokens\<close>: \<open>Math.ceil(text.length / 4)\<close>.\<close>

definition estimateTokens :: "string \<Rightarrow> nat" where
  "estimateTokens text = (length text + 3) div 4"

text \<open>\<open>UltraAgent.readTargetFile\<close>: a failed read is caught and gives the empty string.\<close>

definition readTargetFile :: "filesystem \<Rightarrow> path \<Rightarrow> string \<Rightarrow> string" where
  "readTargetFile fs currentDir filename =
     (let targetPath = path_join currentDir filename
      in if existsSync fs targetPath
         then (case readFileSync fs targetPath of
                 Inr content \<Rightarrow> take MAX_CONTEXT_SIZE content
               | Inl e \<Rightarrow> [])
         else [])"

section \<open>Configuration store\<close>

record HistoryEntry =
  entryTimestamp :: string
  entryTokens :: nat
  entryCost :: rat
  entryCommand :: string

record TokenUsage =
  totalTokens :: nat
  totalCost :: rat
  lastReset :: string
  history :: "HistoryEntry list"

text \<open>\<open>VibeCodeConfig\<close> and \<open>Partial<VibeCodeConfig>\<close>: a key that is absent is \<open>None\<close>.\<close>

record VibeCodeConfig =
  provider :: "string option"
  model :: "string option"
  apiKey :: "string option"
  maxTokens :: "nat option"
  temperature :: "rat option"
  excludePatterns :: "string list option"
  tokenUsage :: "TokenUsage option"

text \<open>
  What the program takes from outside: the AI client, the configuration search of
  \<open>cosmiconfig\<close> (with the fallback to the home directory), \<open>JSON.parse\<close> and
  \<open>JSON.stringify\<close> at the types the program uses them, the environment, the clock, the
  working directory of the process and the answer typed at the confirmation prompt.
\<close>

record Runtime =
  ask :: "string \<Rightarrow> error + string"
  searchConfig :: "error + VibeCodeConfig option"
  parseConfig :: "string \<Rightarrow> error + VibeCodeConfig"
  parseManifest :: "string \<Rightarrow> error + Manifest"
  stringify :: "VibeCodeConfig \<Rightarrow> string"
  envOpenAI :: "string option"
  envAnthropic :: "string option"
  loadedAt :: string
  now :: string
  cwd :: path
  userAnswer :: string

definition freshUsage :: "string \<Rightarrow> TokenUsage" where
  "freshUsage t = \<lparr>totalTokens = 0, totalCost = 0, lastReset = t, history = []\<rparr>"

definition DEFAULT_CONFIG :: "string \<Rightarrow> VibeCodeConfig" where
  "DEFAULT_CONFIG t =
     \<lparr>provider = Some ''openai'', model = Some ''gpt-4'', apiKey = None,
      maxTokens = Some 4096, temperature = Some (7 / 10),
      excludePatterns = Some [''node_modules/**'', ''.git/**'', ''dist/**'', ''build/**'',
                              ''out/**'', ''*.log'', ''.env*''],
      tokenUsage = Some (freshUsage t)\<rparr>"

definition emptyConfig :: VibeCodeConfig where
  "emptyConfig =
     \<lparr>provider = None, model = None, apiKey = None, maxTokens = None, temperature = None,
      excludePatterns = None, tokenUsage = None\<rparr>"

definition orElse :: "'a option \<Rightarrow> 'a option \<Rightarrow> 'a option" where
  "orElse b a = (case b of Some v \<Rightarrow> Some v | None \<Rightarrow> a)"

text \<open>The object spread \<open>{ ...a, ...b }\<close>.\<close>

definition spread :: "VibeCodeConfig \<Rightarrow> VibeCodeConfig \<Rightarrow> VibeCodeConfig" where
  "spread a b =
     \<lparr>provider = orElse (provider b) (provider a), model = orElse (model b) (model a),
      apiKey = orElse (apiKey b) (apiKey a), maxTokens = orElse (maxTokens b) (maxTokens a),
      temperature = orElse (temperature b) (temperature a),
      excludePatterns = orElse (excludePatterns b) (excludePatterns a),
      tokenUsage = orElse (tokenUsage b) (tokenUsage a)\<rparr>"

text \<open>\<open>ConfigManager.load\<close>. The search of the configuration file is an input; the merge with
  the defaults, the environment and the check of the API key are the program's.\<close>

definition load :: "Runtime \<Rightarrow> error + VibeCodeConfig" where
  "load rt =
     (case searchConfig rt of
        Inl e \<Rightarrow> Inl e
      | Inr result \<Rightarrow>
         (let config0 = (case result of
                           Some found \<Rightarrow> spread (DEFAULT_CONFIG (loadedAt rt)) found
                         | None \<Rightarrow> DEFAULT_CONFIG (loadedAt rt));
              config = (if truthy (envOpenAI rt)
                        then config0\<lparr>apiKey := envOpenAI rt, provider := Some ''openai''\<rparr>
                        else if truthy (envAnthropic rt)
                        then config0\<lparr>apiKey := envAnthropic rt, provider := Some ''anthropic''\<rparr>
                        else config0)
          in if \<not> truthy (apiKey config)
             then Inl (ConfigError (''No API key found. Set OPENAI_API_KEY or ANTHROPIC_API_KEY environment ''
                              @ ''variable, or run: vibecode config set apiKey YOUR_KEY''))
             else Inr config))"

text \<open>\<open>ConfigManager.save\<close>: the file \<open>.vibecoderc.json\<close> of the working directory is read,
  merged with the updates and written.\<close>

definition save :: "Runtime \<Rightarrow> filesystem \<Rightarrow> VibeCodeConfig \<Rightarrow> error + filesystem" where
  "save rt fs updates =
     (let configPath = path_join (cwd rt) ''.vibecoderc.json'';
          existing = (if existsSync fs configPath
                      then (case readFileSync fs configPath of
                              Inl e \<Rightarrow> Inl (FsError e)
                            | Inr content \<Rightarrow> parseConfig rt content)
                      else Inr emptyConfig)
      in case existing of
           Inl e \<Rightarrow> Inl e
         | Inr ex \<Rightarrow>
            (case writeFileSync fs configPath (stringify rt (spread ex updates)) of
               Inl e \<Rightarrow> Inl (FsError e)
             | Inr fs' \<Rightarrow> Inr fs'))"

text \<open>The cost of the tokens: 70 percent input and 30 percent output, at the prices per
  million tokens of the provider.\<close>

definition tokenCost :: "string option \<Rightarrow> nat \<Rightarrow> rat" where
  "tokenCost prov n =
     (if prov = Some ''anthropic''
      then (of_nat n * (7 / 10)) / 1000000 * 3 + (of_nat n * (3 / 10)) / 1000000 * 15
      else if prov = Some ''openai''
      then (of_nat n * (7 / 10)) / 1000000 * 30 + (of_nat n * (3 / 10)) / 1000000 * 60
      else 0)"

text \<open>\<open>ConfigManager.trackTokenUsage\<close>.\<close>

definition trackTokenUsage :: "Runtime \<Rightarrow> filesystem \<Rightarrow> nat \<Rightarrow> string \<Rightarrow> error + filesystem" where
  "trackTokenUsage rt fs n label =
     (case load rt of
        Inl e \<Rightarrow> Inl e
      | Inr config \<Rightarrow>
         (let usage0 = (case tokenUsage config of
                          None \<Rightarrow> freshUsage (now rt)
                        | Some u \<Rightarrow> u);
              cost = tokenCost (provider config) n;
              entry = \<lparr>entryTimestamp = now rt, entryTokens = n, entryCost = cost,
                       entryCommand = label\<rparr>;
              usage1 = usage0\<lparr>totalTokens := totalTokens usage0 + n,
                              totalCost := totalCost usage0 + cost,
                              history := history usage0 @ [entry]\<rparr>;
              usage2 = (if length (history usage1) > 100
                        then usage1\<lparr>history := drop (length (history usage1) - 100) (history usage1)\<rparr>
                        else usage1)
          in save rt fs (config\<lparr>tokenUsage := Some usage2\<rparr>)))"

text \<open>\<open>UltraAgent.executeWithAI\<close>: an error of the AI client or of the usage tracking is not
  caught here.\<close>

definition executeWithAI ::
  "Runtime \<Rightarrow> filesystem \<Rightarrow> path \<Rightarrow> ProjectContext \<Rightarrow> CommandIntent \<Rightarrow> string
    \<Rightarrow> error + (string \<times> filesystem)" where
  "executeWithAI rt fs currentDir ctx intent originalCommand =
     (let targetContent = (if truthy (targetFile intent)
                           then readTargetFile fs currentDir (the (targetFile intent))
                           else []);
          prompt = buildPrompt currentDir ctx intent originalCommand targetContent
      in case ask rt prompt of
           Inl e \<Rightarrow> Inl e
         | Inr response \<Rightarrow>
            (case trackTokenUsage rt fs (estimateTokens (prompt @ response)) ''ultra-agent'' of
               Inl e \<Rightarrow> Inl e
             | Inr fs' \<Rightarrow> Inr (response, fs')))"

section \<open>Code extraction\<close>

definition backtick :: char where
  "backtick = CHR 0x60"

text \<open>The pattern of a fenced block: three backticks, a language tag of word characters, a
  line feed, the shortest text up to the next three backticks.\<close>

definition codeBlockPattern :: "ritem list" where
  "codeBlockPattern =
     [Lit fence, Open 1, oneOrMore isWordChar, Close 1, Lit newline,
      Open 2, Rep (\<lambda>c. True) 0 None False, Close 2, Lit fence]"

text \<open>\<open>UltraAgent.isCommandExample\<close>.\<close>

definition commandPrefixes :: "string list" where
  "commandPrefixes = [''npm '', ''yarn '', ''git '', ''cd '', ''mkdir '', ''touch '', ''rm '']"

definition exampleMarkers :: "string list" where
  "exampleMarkers = [''# example'', ''// example'', ''# exemplo'', ''// exemplo'']"

definition isCommandExample :: "string \<Rightarrow> bool" where
  "isCommandExample codeText =
     (let lower = toLowerCase codeText
      in list_ex (\<lambda>pre. startsWith lower pre) commandPrefixes
         \<or> list_ex (\<lambda>marker. includes_str lower marker) exampleMarkers)"

text \<open>The two patterns of \<open>extractPathBeforeBlock\<close>, each with its flags: a label
  \<open>File:\<close>, \<open>Arquivo:\<close>, \<open>Path:\<close> or \<open>Caminho:\<close> at the end of a line (flags \<open>im\<close>), and a path
  between backticks at the end of the text (no flag).\<close>

definition labelPattern :: "ritem list" where
  "labelPattern =
     [Alt [''File'', ''Arquivo'', ''Path'', ''Caminho''], Lit '':'', zeroOrMore isWhiteSpace,
      Rep (\<lambda>c. c = backtick) 0 (Some 1) True,
      Open 1, oneOrMore (\<lambda>c. c \<noteq> CHR 0x0A \<and> c \<noteq> backtick), Lit ''.'', oneOrMore isAlnum, Close 1,
      Rep (\<lambda>c. c = backtick) 0 (Some 1) True, zeroOrMore isWhiteSpace, EndAnchor]"

definition quotedPattern :: "ritem list" where
  "quotedPattern =
     [Lit [backtick], Open 1, oneOrMore (\<lambda>c. c \<noteq> backtick), Lit ''.'', Rep isAlpha 2 (Some 4) True,
      Close 1, Lit [backtick], zeroOrMore isWhiteSpace, EndAnchor]"

definition pathPatterns :: "(rflags \<times> ritem list) list" where
  "pathPatterns = [(flags_im, labelPattern), (flags_none, quotedPattern)]"

text \<open>The loop over the patterns: the first pattern that matches gives the path, trimmed,
  without backticks and with every backslash turned into a slash.\<close>

fun firstPath :: "(rflags \<times> ritem list) list \<Rightarrow> string \<Rightarrow> string option" where
  "firstPath [] beforeBlock = None"
| "firstPath ((fl, pattern) # patterns) beforeBlock =
     (case regex_match fl pattern beforeBlock of
        Some m \<Rightarrow>
          Some (replace_char (CHR 0x5C) ''/'' (replace_char backtick [] (trim (group m 1))))
      | None \<Rightarrow> firstPath patterns beforeBlock)"

text \<open>\<open>UltraAgent.extractPathBeforeBlock\<close>: the 300 characters before the block are searched.\<close>

definition extractPathBeforeBlock :: "string \<Rightarrow> nat \<Rightarrow> string option" where
  "extractPathBeforeBlock response blockIndex =
     firstPath pathPatterns (substring response (blockIndex - 300) blockIndex)"

definition validExts :: "string list" where
  "validExts = [''ts'', ''tsx'', ''js'', ''jsx'', ''json'', ''md'', ''html'', ''css'', ''scss'',
     ''yaml'', ''yml'']"

definition suspiciousParts :: "string list" where
  "suspiciousParts = [''heap'', ''stack'', ''memory'', ''buffer'', ''cache'']"

text \<open>\<open>xs.pop()\<close> and \<open>xs[0]\<close> of an array; \<open>split\<close> never gives an empty array.\<close>

definition pop :: "string list \<Rightarrow> string" where
  "pop xs = (case rev xs of [] \<Rightarrow> [] | x # rest \<Rightarrow> x)"

definition first :: "string list \<Rightarrow> string" where
  "first xs = (case xs of [] \<Rightarrow> [] | x # rest \<Rightarrow> x)"

text \<open>\<open>UltraAgent.isValidCodeBlock\<close>.\<close>

definition isValidCodeBlock :: "string \<Rightarrow> string \<Rightarrow> string option \<Rightarrow> bool" where
  "isValidCodeBlock codeText lang blockPath =
     (case blockPath of
        None \<Rightarrow> False
      | Some p \<Rightarrow>
         if p = [] \<or> \<not> includes_str p ''.'' then False
         else (let ext = toLowerCase (pop (split_char CHR ''.'' p))
               in if ext = [] \<or> ext \<notin> set validExts then False
                  else (let firstPart =
                              toLowerCase (first (split_char (CHR 0x5C) (first (split_char CHR ''/'' p))))
                        in if firstPart \<in> set suspiciousParts \<and> \<not> includes_str p ''/''
                           then False else True)))"

text \<open>The patterns \<open>/import |require\(|from ['"]/\<close> and \<open>/function |=>|class /\<close>.\<close>

definition importsPattern :: "ritem list" where
  "importsPattern =
     [Alt [''import '', ''require('', ''from '' @ [CHR 0x27], ''from '' @ [CHR 0x22]]]"

definition definitionsPattern :: "ritem list" where
  "definitionsPattern = [Alt [''function '', ''=>'', ''class '']]"

text \<open>\<open>UltraAgent.analyzeCodeBlock\<close>.\<close>

definition analyzeCodeBlock :: "string \<Rightarrow> Metadata" where
  "analyzeCodeBlock codeText =
     \<lparr>lineCount = length (split_char (CHR 0x0A) codeText),
      charCount = length codeText,
      hasImports = regex_test flags_none importsPattern codeText,
      hasFunctions = regex_test flags_none definitionsPattern codeText\<rparr>"

text \<open>What the body of the loop of \<open>extractCodeBlocks\<close> does with one match.\<close>

definition acceptMatch :: "string \<Rightarrow> rresult \<Rightarrow> CodeBlock list \<Rightarrow> CodeBlock list" where
  "acceptMatch response m blocks =
     (let lang = group m 1;
          codeText = trim (group m 2)
      in if length codeText < MIN_CODE_LENGTH then blocks
         else if isCommandExample codeText then blocks
         else (let blockPath = extractPathBeforeBlock response (index m)
               in if isValidCodeBlock codeText lang blockPath
                  then blocks @ [\<lparr>code = codeText, language = lang, path = blockPath,
                                   metadata = analyzeCodeBlock codeText\<rparr>]
                  else blocks))"

text \<open>A match of the pattern of a fenced block ends behind the index where the search
  started and inside the text: the loop of \<open>extractCodeBlocks\<close> terminates.\<close>

lemma first_match_SomeD: "first_match f xs = Some y \<Longrightarrow> \<exists>x \<in> set xs. f x = Some y"
  by (induction xs) (auto split: option.splits)

lemma rmatch_length: "rmatch fl items s st = Some (rest, st') \<Longrightarrow> length rest \<le> length s"
proof (induction items arbitrary: s st)
  case Nil
  then show ?case by simp
next
  case (Cons it r)
  show ?case
  proof (cases it)
    case (Lit l)
    with Cons.prems have "rmatch fl r (drop (length l) s) st = Some (rest, st')"
      by (simp split: if_splits)
    from Cons.IH[OF this] show ?thesis by simp
  next
    case (Alt ls)
    with Cons.prems obtain l where "(if lit_at fl l s then rmatch fl r (drop (length l) s) st else None) = Some (rest, st')"
      by (auto dest!: first_match_SomeD)
    then have "rmatch fl r (drop (length l) s) st = Some (rest, st')" by (simp split: if_splits)
    from Cons.IH[OF this] show ?thesis by simp
  next
    case (Rep cls lo hi g)
    with Cons.prems obtain n where "rmatch fl r (drop n s) st = Some (rest, st')"
      by (auto dest!: first_match_SomeD)
    from Cons.IH[OF this] show ?thesis by simp
  next
    case (Open k)
    with Cons.prems Cons.IH show ?thesis by simp
  next
    case (Close k)
    with Cons.prems Cons.IH show ?thesis by simp
  next
    case EndAnchor
    with Cons.prems Cons.IH show ?thesis by (simp split: if_splits)
  qed
qed

lemma lit_at_length: "lit_at fl l s \<Longrightarrow> length l \<le> length s"
  by (induction fl l s rule: lit_at.induct) auto

lemma rmatch_Lit_length:
  "rmatch fl (Lit l # r) s st = Some (rest, st') \<Longrightarrow> length rest + length l \<le> length s"
proof -
  assume a: "rmatch fl (Lit l # r) s st = Some (rest, st')"
  then have l: "lit_at fl l s" and m: "rmatch fl r (drop (length l) s) st = Some (rest, st')"
    by (simp_all split: if_splits)
  from rmatch_length[OF m] lit_at_length[OF l] show ?thesis by simp
qed

lemma rsearch_bounds:
  "rsearch fl (Lit l # r) i s = Some m \<Longrightarrow>
     i \<le> index m \<and> index m + length l \<le> endIndex m \<and> endIndex m \<le> i + length s"
proof (induction s arbitrary: i)
  case Nil
  then show ?case
    by (auto split: option.splits if_splits dest!: lit_at_length)
next
  case (Cons c cs)
  show ?case
  proof (cases "rmatch fl (Lit l # r) (c # cs) \<lparr>opened = [], captures = []\<rparr>")
    case None
    with Cons.prems have "rsearch fl (Lit l # r) (Suc i) cs = Some m" by simp
    from Cons.IH[OF this] show ?thesis by simp
  next
    case (Some res)
    obtain rest st where res: "res = (rest, st)" by (cases res)
    from rmatch_Lit_length[OF Some[unfolded res]] have "length rest + length l \<le> length (c # cs)" .
    moreover from Cons.prems Some res
    have "m = \<lparr>index = i, endIndex = i + (length (c # cs) - length rest), groups = captures st\<rparr>"
      by simp
    ultimately show ?thesis by auto
  qed
qed

lemma exec_codeBlock_bounds:
  assumes "regex_exec flags_none codeBlockPattern response lastIndex = Some m"
  shows "lastIndex < endIndex m" "endIndex m \<le> length response"
proof -
  from assms have le: "lastIndex \<le> length response"
    and s: "rsearch flags_none codeBlockPattern lastIndex (drop lastIndex response) = Some m"
    by (simp_all add: regex_exec_def split: if_splits)
  from s have "lastIndex \<le> index m \<and> index m + length fence \<le> endIndex m
      \<and> endIndex m \<le> lastIndex + length (drop lastIndex response)"
    unfolding codeBlockPattern_def by (rule rsearch_bounds)
  then show "lastIndex < endIndex m" "endIndex m \<le> length response"
    using le by (simp_all add: fence_def)
qed

text \<open>The loop \<open>while ((match = pattern.exec(response)) !== null)\<close> of
  \<open>extractCodeBlocks\<close>: the state is \<open>lastIndex\<close> of the global pattern and the blocks
  found so far.\<close>

function extractLoop :: "string \<Rightarrow> nat \<Rightarrow> CodeBlock list \<Rightarrow> CodeBlock list" where
  "extractLoop response lastIndex blocks =
     (case regex_exec flags_none codeBlockPattern response lastIndex of
        None \<Rightarrow> blocks
      | Some m \<Rightarrow> extractLoop response (endIndex m) (acceptMatch response m blocks))"
  by pat_completeness auto
termination
proof (relation "measure (\<lambda>(response, lastIndex, blocks). length response - lastIndex)")
  show "wf (measure (\<lambda>(response, lastIndex, blocks). length response - lastIndex))" by simp
next
  fix response :: string and lastIndex :: nat and blocks :: "CodeBlock list" and m
  assume "regex_exec flags_none codeBlockPattern response lastIndex = Some m"
  from exec_codeBlock_bounds[OF this]
  show "((response, endIndex m, acceptMatch response m blocks), (response, lastIndex, blocks))
          \<in> measure (\<lambda>(response, lastIndex, blocks). length response - lastIndex)"
    by simp
qed

text \<open>\<open>UltraAgent.extractCodeBlocks\<close>.\<close>

definition extractCodeBlocks :: "string \<Rightarrow> CodeBlock list" where
  "extractCodeBlocks response = extractLoop response 0 []"

section \<open>Validation\<close>

definition count_char :: "char \<Rightarrow> string \<Rightarrow> nat" where
  "count_char c s = length (filter (\<lambda>x. x = c) s)"

definition initialValidation :: ValidationResult where
  "initialValidation =
     \<lparr>isValid = True, isComplete = True, warnings = [], errors = [], suggestions = []\<rparr>"

definition checkBraces :: "string \<Rightarrow> ValidationResult \<Rightarrow> ValidationResult" where
  "checkBraces codeText r =
     (if count_char CHR ''{'' codeText \<noteq> count_char CHR ''}'' codeText
      then r\<lparr>errors := errors r @ [''Unbalanced braces''], isComplete := False, isValid := False\<rparr>
      else r)"

definition checkParens :: "string \<Rightarrow> ValidationResult \<Rightarrow> ValidationResult" where
  "checkParens codeText r =
     (if count_char CHR ''('' codeText \<noteq> count_char CHR '')'' codeText
      then r\<lparr>errors := errors r @ [''Unbalanced parentheses''], isComplete := False,
             isValid := False\<rparr>
      else r)"

definition checkDefinitions :: "string \<Rightarrow> ValidationResult \<Rightarrow> ValidationResult" where
  "checkDefinitions codeText r =
     (if \<not> regex_test flags_none definitionsPattern codeText \<and> length codeText > 100
      then r\<lparr>warnings := warnings r @ [''No function or class definitions found'']\<rparr>
      else r)"

definition checkLength :: "string \<Rightarrow> ValidationResult \<Rightarrow> ValidationResult" where
  "checkLength codeText r =
     (if length codeText < MIN_CODE_LENGTH
      then r\<lparr>warnings := warnings r
                 @ [''Code is very short (< '' @ show_nat MIN_CODE_LENGTH @ '' characters)''],
             suggestions := suggestions r @ [''Request more complete implementation'']\<rparr>
      else r)"

text \<open>The last three lines: \<open>code.split('\n').slice(-3).join('\n')\<close>.\<close>

definition lastLines :: "string \<Rightarrow> string" where
  "lastLines codeText =
     (let ls = split_char (CHR 0x0A) codeText in join newline (drop (length ls - 3) ls))"

definition checkComment :: "string \<Rightarrow> ValidationResult \<Rightarrow> ValidationResult" where
  "checkComment codeText r =
     (let l = lastLines codeText
      in if (includes_str l ''/**'' \<and> \<not> includes_str l ''*/'')
            \<or> (includes_str l ''/*'' \<and> \<not> includes_str l ''*/'')
         then r\<lparr>errors := errors r @ [''Incomplete comment block at end of file''],
                isComplete := False\<rparr>
         else r)"

text \<open>\<open>UltraAgent.validateCode\<close>: the five checks in the order of the source, for the four
  language tags the function knows.\<close>

definition validateCode :: "string \<Rightarrow> string \<Rightarrow> ValidationResult" where
  "validateCode codeText lang =
     (if lang = ''typescript'' \<or> lang = ''javascript'' \<or> lang = ''tsx'' \<or> lang = ''jsx''
      then checkComment codeText (checkLength codeText (checkDefinitions codeText
             (checkParens codeText (checkBraces codeText initialValidation))))
      else initialValidation)"

section \<open>File operations\<close>

text \<open>\<open>ExecutionResult\<close>; its field \<open>errors\<close> is \<open>resultErrors\<close> here.\<close>

record ExecutionResult =
  success :: bool
  filesCreated :: "string list"
  filesModified :: "string list"
  resultErrors :: "string list"

definition initialResult :: ExecutionResult where
  "initialResult = \<lparr>success = True, filesCreated = [], filesModified = [], resultErrors = []\<rparr>"

text \<open>The message of an error of the file system, without the path that Node appends.\<close>

fun fs_message :: "fs_error \<Rightarrow> string" where
  "fs_message ENOENT = ''ENOENT: no such file or directory''"
| "fs_message ENOTDIR = ''ENOTDIR: not a directory''"
| "fs_message EISDIR = ''EISDIR: illegal operation on a directory''"
| "fs_message EEXIST = ''EEXIST: file already exists''"

text \<open>The \<open>catch\<close> of the loop body.\<close>

definition caught :: "fs_error \<Rightarrow> ExecutionResult \<Rightarrow> ExecutionResult" where
  "caught e r = r\<lparr>success := False, resultErrors := resultErrors r @ [fs_message e]\<rparr>"

text \<open>A string in a template literal: \<open>undefined\<close> prints as the word.\<close>

definition interpolate :: "string option \<Rightarrow> string" where
  "interpolate v = (case v of None \<Rightarrow> ''undefined'' | Some s \<Rightarrow> s)"

text \<open>\<open>block.path || intent.targetFile\<close>.\<close>

definition resolveFilePath :: "CodeBlock \<Rightarrow> CommandIntent \<Rightarrow> string option" where
  "resolveFilePath block intent = (if truthy (path block) then path block else targetFile intent)"

text \<open>The body of the loop of \<open>executeFileOperations\<close> for one block: the state is the file
  store and the result.\<close>

definition applyBlock ::
  "path \<Rightarrow> CommandIntent \<Rightarrow> filesystem \<times> ExecutionResult \<Rightarrow> CodeBlock
    \<Rightarrow> filesystem \<times> ExecutionResult" where
  "applyBlock currentDir intent st block =
     (let fs = fst st; r = snd st;
          validation = validateCode (code block) (language block)
      in if \<not> isValid validation
         then (fs, r\<lparr>resultErrors := resultErrors r
                       @ [''Invalid code in '' @ interpolate (path block) @ '': ''
                          @ join '', '' (errors validation)]\<rparr>)
         else (let filePath = resolveFilePath block intent
               in if \<not> truthy filePath
                  then (fs, r\<lparr>resultErrors := resultErrors r @ [''No file path specified'']\<rparr>)
                  else (let fullPath = path_join currentDir (the filePath);
                            exists = existsSync fs fullPath;
                            dir = dirname fullPath
                        in case (if \<not> existsSync fs dir then mkdirSync fs dir else Inr fs) of
                             Inl e \<Rightarrow> (fs, caught e r)
                           | Inr fs1 \<Rightarrow>
                              (case writeFileSync fs1 fullPath (code block) of
                                 Inl e \<Rightarrow> (fs1, caught e r)
                               | Inr fs2 \<Rightarrow>
                                  (fs2, if exists
                                        then r\<lparr>filesModified := filesModified r @ [the filePath]\<rparr>
                                        else r\<lparr>filesCreated := filesCreated r @ [the filePath]\<rparr>)))))"

text \<open>\<open>UltraAgent.executeFileOperations\<close>.\<close>

definition executeFileOperations ::
  "filesystem \<Rightarrow> path \<Rightarrow> CodeBlock list \<Rightarrow> CommandIntent \<Rightarrow> filesystem \<times> ExecutionResult" where
  "executeFileOperations fs currentDir blocks intent =
     foldl (applyBlock currentDir intent) (fs, initialResult) blocks"

section \<open>The command\<close>

text \<open>How a command ends: the user declined, the response held no block, the blocks were
  applied, or an error reached the \<open>catch\<close> of \<open>execute\<close> and was reported.\<close>

datatype outcome =
    Cancelled
  | NoCodeFound
  | Executed ExecutionResult
  | Failed error

text \<open>\<open>UltraAgent.processResponse\<close>.\<close>

definition processResponse ::
  "Runtime \<Rightarrow> filesystem \<Rightarrow> path \<Rightarrow> string \<Rightarrow> CommandIntent \<Rightarrow> filesystem \<times> outcome" where
  "processResponse rt fs currentDir response intent =
     (let confirmed = requestConfirmation (userAnswer rt)
      in if \<not> confirmed then (fs, Cancelled)
         else (let codeBlocks = extractCodeBlocks response
               in if length codeBlocks = 0 then (fs, NoCodeFound)
                  else (let (fs', result) = executeFileOperations fs currentDir codeBlocks intent
                        in (fs', Executed result))))"

text \<open>\<open>UltraAgent.execute\<close>: the four stages inside one \<open>try\<close>.\<close>

definition execute :: "Runtime \<Rightarrow> filesystem \<Rightarrow> path \<Rightarrow> string \<Rightarrow> filesystem \<times> outcome" where
  "execute rt fs currentDir command =
     (let intent = analyzeIntent command;
          ctx = scanProject (parseManifest rt) fs currentDir
      in case executeWithAI rt fs currentDir ctx intent command of
           Inl e \<Rightarrow> (fs, Failed e)
         | Inr (response, fs1) \<Rightarrow> processResponse rt fs1 currentDir response intent)"

section \<open>Auxiliary notions and examples\<close>

text \<open>A text in which every backtick is followed by another character that is not a
  backtick: no fence starts in it.\<close>

fun lone_backticks :: "string \<Rightarrow> bool" where
  "lone_backticks [] = True"
| "lone_backticks [c] = (c \<noteq> backtick)"
| "lone_backticks (c # d # s) = ((c = backtick \<longrightarrow> d \<noteq> backtick) \<and> lone_backticks (d # s))"

text \<open>What the loop of \<open>extractCodeBlocks\<close> requires of a block that it returns for the
  match \<open>m\<close>.\<close>

definition returnedAt :: "string \<Rightarrow> rresult \<Rightarrow> CodeBlock \<Rightarrow> bool" where
  "returnedAt response m b =
     (b = \<lparr>code = trim (group m 2), language = group m 1,
            path = extractPathBeforeBlock response (index m),
            metadata = analyzeCodeBlock (trim (group m 2))\<rparr>
      \<and> MIN_CODE_LENGTH \<le> length (code b)
      \<and> \<not> isCommandExample (code b)
      \<and> isValidCodeBlock (code b) (language b) (path b))"


text \<open>A fence stands at index \<open>i\<close> of the response.\<close>

definition fenceAt :: "string \<Rightarrow> nat \<Rightarrow> bool" where
  "fenceAt response i = (take 3 (drop i response) = fence)"

text \<open>The extension of a path, as \<open>isValidCodeBlock\<close> computes it.\<close>

definition extension :: "string \<Rightarrow> string" where
  "extension p = toLowerCase (pop (split_char CHR ''.'' p))"

text \<open>An example: a module of 211 characters, the block that holds it, a fenced block as it
  stands in a response, and three responses with the module: after a \<open>File:\<close> label, after
  a path between backticks with no label, and after a heading only.\<close>

definition exampleCode :: string where
  "exampleCode = join newline
     [''export function add(a: number, b: number): number {'',
      ''  return a + b;'',
      ''}'',
      '''',
      ''export function sub(a: number, b: number): number {'',
      ''  return a - b;'',
      ''}'',
      '''',
      ''export function mul(a: number, b: number): number {'',
      ''  return a * b;'',
      ''}'']"

definition exampleBlock :: CodeBlock where
  "exampleBlock = \<lparr>code = exampleCode, language = ''ts'', path = Some ''src/x.ts'',
     metadata = analyzeCodeBlock exampleCode\<rparr>"

definition fenced :: "string \<Rightarrow> string \<Rightarrow> string" where
  "fenced lang c = fence @ lang @ newline @ (c @ newline) @ fence"

definition labelPrefix :: string where
  "labelPrefix = ''## Code'' @ newline @ ''File: src/x.ts'' @ newline"

definition labelledResponse :: string where
  "labelledResponse = labelPrefix @ fenced ''ts'' exampleCode @ newline"



text \<open>A code that passes the filters of the loop when it stands in a fenced block: it is
  trimmed, it holds no fence, it has the minimum length and it is no command example.\<close>

definition deliverable :: "string \<Rightarrow> bool" where
  "deliverable c =
     (c \<noteq> [] \<and> \<not> isWhiteSpace (hd c) \<and> \<not> isWhiteSpace (last c) \<and> lone_backticks (c @ newline)
      \<and> MIN_CODE_LENGTH \<le> length c \<and> \<not> isCommandExample c)"

text \<open>A project directory with a folder \<open>src\<close>, an intent with no target file, the example
  module with one more opening brace, the example module with a comment that is not closed,
  and a block tagged \<open>typescript\<close> for the path \<open>src/x.ts\<close>.\<close>

definition projectDir :: path where
  "projectDir = [''home'', ''project'']"

definition emptyProject :: filesystem where
  "emptyProject = [([''home''], Dir), ([''home'', ''project''], Dir),
     ([''home'', ''project'', ''src''], Dir)]"


definition exampleIntent :: CommandIntent where
  "exampleIntent = \<lparr>targetFolder = None, targetFile = None, actions = noActions,
     fullCommand = ''improve the module'', confidence = 0\<rparr>"







text \<open>The file that \<open>ConfigManager.save\<close> writes.\<close>

definition configPath :: "Runtime \<Rightarrow> path" where
  "configPath rt = path_join (cwd rt) ''.vibecoderc.json''"

text \<open>The prompt that \<open>execute\<close> sends for a command: what \<open>executeWithAI\<close> builds from the
  intent and the scan of the command.\<close>

definition commandPrompt :: "Runtime \<Rightarrow> filesystem \<Rightarrow> path \<Rightarrow> string \<Rightarrow> string" where
  "commandPrompt rt fs currentDir command =
     (let intent = analyzeIntent command;
          ctx = scanProject (parseManifest rt) fs currentDir;
          targetContent = (if truthy (targetFile intent)
                           then readTargetFile fs currentDir (the (targetFile intent))
                           else [])
      in buildPrompt currentDir ctx intent command targetContent)"

text \<open>An environment for the examples: an API key in \<open>OPENAI_API_KEY\<close>, no configuration
  file, an AI client that answers with the labelled example, and the answer typed at the
  prompt. The text that \<open>JSON.stringify\<close> gives plays no part in the examples and is
  \<open>{}\<close>; no JSON text is parsed. In the second environment the search of the configuration
  fails, as it does on a configuration file that is not well formed.\<close>

definition exampleRuntime :: "string \<Rightarrow> Runtime" where
  "exampleRuntime typed =
     \<lparr>ask = (\<lambda>prompt. Inr labelledResponse),
      searchConfig = Inr None,
      parseConfig = (\<lambda>content. Inl SyntaxError),
      parseManifest = (\<lambda>content. Inl SyntaxError),
      stringify = (\<lambda>config. ''{}''),
      envOpenAI = Some ''sk-example'',
      envAnthropic = None,
      loadedAt = ''2025-01-01T00:00:00.000Z'',
      now = ''2025-01-01T00:00:05.000Z'',
      cwd = projectDir,
      userAnswer = typed\<rparr>"

definition brokenRuntime :: Runtime where
  "brokenRuntime = (exampleRuntime ''y'')\<lparr>searchConfig := Inl SyntaxError\<rparr>"

text \<open>A project whose directory holds \<open>n\<close> source files \<open>a.ts\<close>, \<open>aa.ts\<close>, \<open>aaa.ts\<close> and so
  on, and nothing else.\<close>

definition flatName :: "nat \<Rightarrow> string" where
  "flatName i = replicate (Suc i) CHR ''a'' @ ''.ts''"

definition flatProject :: "nat \<Rightarrow> filesystem" where
  "flatProject n =
     ([''home''], Dir) # ([''home'', ''project''], Dir)
     # map (\<lambda>i. ([''home'', ''project'', flatName i], File ''export {}'')) [0..<n]"

text \<open>The file \<open>f\<close> lies below \<open>dir\<close>, which has the depth \<open>depth\<close>, in a directory of depth at
  most 4: the path from \<open>dir\<close> to the file has at most \<open>5 - depth\<close> segments.\<close>

definition withinDepth :: "path \<Rightarrow> path \<Rightarrow> nat \<Rightarrow> string \<Rightarrow> bool" where
  "withinDepth currentDir dir depth f =
     (\<exists>segs. segs \<noteq> [] \<and> depth + length segs \<le> 5 \<and> f = path_relative currentDir (dir @ segs))"

section \<open>Evaluation tables for characters\<close>

text \<open>The character functions on the characters of the examples, as rewrite rules.\<close>

lemma code_unit_table:
  "code_unit (CHR 0x09) = 9"
  "code_unit (CHR 0x0A) = 10"
  "code_unit (CHR 0x0D) = 13"
  "code_unit (CHR 0x20) = 32"
  "code_unit (CHR 0x21) = 33"
  "code_unit (CHR 0x22) = 34"
  "code_unit (CHR 0x23) = 35"
  "code_unit (CHR 0x24) = 36"
  "code_unit (CHR 0x25) = 37"
  "code_unit (CHR 0x26) = 38"
  "code_unit (CHR 0x27) = 39"
  "code_unit (CHR 0x28) = 40"
  "code_unit (CHR 0x29) = 41"
  "code_unit (CHR 0x2A) = 42"
  "code_unit (CHR 0x2B) = 43"
  "code_unit (CHR 0x2C) = 44"
  "code_unit (CHR 0x2D) = 45"
  "code_unit (CHR 0x2E) = 46"
  "code_unit (CHR 0x2F) = 47"
  "code_unit (CHR 0x30) = 48"
  "code_unit (CHR 0x31) = 49"
  "code_unit (CHR 0x32) = 50"
  "code_unit (CHR 0x33) = 51"
  "code_unit (CHR 0x34) = 52"
  "code_unit (CHR 0x35) = 53"
  "code_unit (CHR 0x36) = 54"
  "code_unit (CHR 0x37) = 55"
  "code_unit (CHR 0x38) = 56"
  "code_unit (CHR 0x39) = 57"
  "code_unit (CHR 0x3A) = 58"
  "code_unit (CHR 0x3B) = 59"
  "code_unit (CHR 0x3C) = 60"
  "code_unit (CHR 0x3D) = 61"
  "code_unit (CHR 0x3E) = 62"
  "code_unit (CHR 0x3F) = 63"
  "code_unit (CHR 0x40) = 64"
  "code_unit (CHR 0x41) = 65"
  "code_unit (CHR 0x42) = 66"
  "code_unit (CHR 0x43) = 67"
  "code_unit (CHR 0x44) = 68"
  "code_unit (CHR 0x45) = 69"
  "code_unit (CHR 0x46) = 70"
  "code_unit (CHR 0x47) = 71"
  "code_unit (CHR 0x48) = 72"
  "code_unit (CHR 0x49) = 73"
  "code_unit (CHR 0x4A) = 74"
  "code_unit (CHR 0x4B) = 75"
  "code_unit (CHR 0x4C) = 76"
  "code_unit (CHR 0x4D) = 77"
  "code_unit (CHR 0x4E) = 78"
  "code_unit (CHR 0x4F) = 79"
  "code_unit (CHR 0x50) = 80"
  "code_unit (CHR 0x51) = 81"
  "code_unit (CHR 0x52) = 82"
  "code_unit (CHR 0x53) = 83"
  "code_unit (CHR 0x54) = 84"
  "code_unit (CHR 0x55) = 85"
  "code_unit (CHR 0x56) = 86"
  "code_unit (CHR 0x57) = 87"
  "code_unit (CHR 0x58) = 88"
  "code_unit (CHR 0x59) = 89"
  "code_unit (CHR 0x5A) = 90"
  "code_unit (CHR 0x5B) = 91"
  "code_unit (CHR 0x5C) = 92"
  "code_unit (CHR 0x5D) = 93"
  "code_unit (CHR 0x5E) = 94"
  "code_unit (CHR 0x5F) = 95"
  "code_unit (CHR 0x60) = 96"
  "code_unit (CHR 0x61) = 97"
  "code_unit (CHR 0x62) = 98"
  "code_unit (CHR 0x63) = 99"
  "code_unit (CHR 0x64) = 100"
  "code_unit (CHR 0x65) = 101"
  "code_unit (CHR 0x66) = 102"
  "code_unit (CHR 0x67) = 103"
  "code_unit (CHR 0x68) = 104"
  "code_unit (CHR 0x69) = 105"
  "code_unit (CHR 0x6A) = 106"
  "code_unit (CHR 0x6B) = 107"
  "code_unit (CHR 0x6C) = 108"
  "code_unit (CHR 0x6D) = 109"
  "code_unit (CHR 0x6E) = 110"
  "code_unit (CHR 0x6F) = 111"
  "code_unit (CHR 0x70) = 112"
  "code_unit (CHR 0x71) = 113"
  "code_unit (CHR 0x72) = 114"
  "code_unit (CHR 0x73) = 115"
  "code_unit (CHR 0x74) = 116"
  "code_unit (CHR 0x75) = 117"
  "code_unit (CHR 0x76) = 118"
  "code_unit (CHR 0x77) = 119"
  "code_unit (CHR 0x78) = 120"
  "code_unit (CHR 0x79) = 121"
  "code_unit (CHR 0x7A) = 122"
  "code_unit (CHR 0x7B) = 123"
  "code_unit (CHR 0x7C) = 124"
  "code_unit (CHR 0x7D) = 125"
  "code_unit (CHR 0x7E) = 126"
  "code_unit (CHR 0xA0) = 160"
  "code_unit (CHR 0xC1) = 193"
  "code_unit (CHR 0xD3) = 211"
  "code_unit (CHR 0xE1) = 225"
  "code_unit (CHR 0xF3) = 243"
  by (simp_all add: code_unit_def)

lemma char_of_table:
  "char_of (9::nat) = CHR 0x09"
  "char_of (10::nat) = CHR 0x0A"
  "char_of (13::nat) = CHR 0x0D"
  "char_of (32::nat) = CHR 0x20"
  "char_of (33::nat) = CHR 0x21"
  "char_of (34::nat) = CHR 0x22"
  "char_of (35::nat) = CHR 0x23"
  "char_of (36::nat) = CHR 0x24"
  "char_of (37::nat) = CHR 0x25"
  "char_of (38::nat) = CHR 0x26"
  "char_of (39::nat) = CHR 0x27"
  "char_of (40::nat) = CHR 0x28"
  "char_of (41::nat) = CHR 0x29"
  "char_of (42::nat) = CHR 0x2A"
  "char_of (43::nat) = CHR 0x2B"
  "char_of (44::nat) = CHR 0x2C"
  "char_of (45::nat) = CHR 0x2D"
  "char_of (46::nat) = CHR 0x2E"
  "char_of (47::nat) = CHR 0x2F"
  "char_of (48::nat) = CHR 0x30"
  "char_of (49::nat) = CHR 0x31"
  "char_of (50::nat) = CHR 0x32"
  "char_of (51::nat) = CHR 0x33"
  "char_of (52::nat) = CHR 0x34"
  "char_of (53::nat) = CHR 0x35"
  "char_of (54::nat) = CHR 0x36"
  "char_of (55::nat) = CHR 0x37"
  "char_of (56::nat) = CHR 0x38"
  "char_of (57::nat) = CHR 0x39"
  "char_of (58::nat) = CHR 0x3A"
  "char_of (59::nat) = CHR 0x3B"
  "char_of (60::nat) = CHR 0x3C"
  "char_of (61::nat) = CHR 0x3D"
  "char_of (62::nat) = CHR 0x3E"
  "char_of (63::nat) = CHR 0x3F"
  "char_of (64::nat) = CHR 0x40"
  "char_of (65::nat) = CHR 0x41"
  "char_of (66::nat) = CHR 0x42"
  "char_of (67::nat) = CHR 0x43"
  "char_of (68::nat) = CHR 0x44"
  "char_of (69::nat) = CHR 0x45"
  "char_of (70::nat) = CHR 0x46"
  "char_of (71::nat) = CHR 0x47"
  "char_of (72::nat) = CHR 0x48"
  "char_of (73::nat) = CHR 0x49"
  "char_of (74::nat) = CHR 0x4A"
  "char_of (75::nat) = CHR 0x4B"
  "char_of (76::nat) = CHR 0x4C"
  "char_of (77::nat) = CHR 0x4D"
  "char_of (78::nat) = CHR 0x4E"
  "char_of (79::nat) = CHR 0x4F"
  "char_of (80::nat) = CHR 0x50"
  "char_of (81::nat) = CHR 0x51"
  "char_of (82::nat) = CHR 0x52"
  "char_of (83::nat) = CHR 0x53"
  "char_of (84::nat) = CHR 0x54"
  "char_of (85::nat) = CHR 0x55"
  "char_of (86::nat) = CHR 0x56"
  "char_of (87::nat) = CHR 0x57"
  "char_of (88::nat) = CHR 0x58"
  "char_of (89::nat) = CHR 0x59"
  "char_of (90::nat) = CHR 0x5A"
  "char_of (91::nat) = CHR 0x5B"
  "char_of (92::nat) = CHR 0x5C"
  "char_of (93::nat) = CHR 0x5D"
  "char_of (94::nat) = CHR 0x5E"
  "char_of (95::nat) = CHR 0x5F"
  "char_of (96::nat) = CHR 0x60"
  "char_of (97::nat) = CHR 0x61"
  "char_of (98::nat) = CHR 0x62"
  "char_of (99::nat) = CHR 0x63"
  "char_of (100::nat) = CHR 0x64"
  "char_of (101::nat) = CHR 0x65"
  "char_of (102::nat) = CHR 0x66"
  "char_of (103::nat) = CHR 0x67"
  "char_of (104::nat) = CHR 0x68"
  "char_of (105::nat) = CHR 0x69"
  "char_of (106::nat) = CHR 0x6A"
  "char_of (107::nat) = CHR 0x6B"
  "char_of (108::nat) = CHR 0x6C"
  "char_of (109::nat) = CHR 0x6D"
  "char_of (110::nat) = CHR 0x6E"
  "char_of (111::nat) = CHR 0x6F"
  "char_of (112::nat) = CHR 0x70"
  "char_of (113::nat) = CHR 0x71"
  "char_of (114::nat) = CHR 0x72"
  "char_of (115::nat) = CHR 0x73"
  "char_of (116::nat) = CHR 0x74"
  "char_of (117::nat) = CHR 0x75"
  "char_of (118::nat) = CHR 0x76"
  "char_of (119::nat) = CHR 0x77"
  "char_of (120::nat) = CHR 0x78"
  "char_of (121::nat) = CHR 0x79"
  "char_of (122::nat) = CHR 0x7A"
  "char_of (123::nat) = CHR 0x7B"
  "char_of (124::nat) = CHR 0x7C"
  "char_of (125::nat) = CHR 0x7D"
  "char_of (126::nat) = CHR 0x7E"
  "char_of (160::nat) = CHR 0xA0"
  "char_of (193::nat) = CHR 0xC1"
  "char_of (211::nat) = CHR 0xD3"
  "char_of (225::nat) = CHR 0xE1"
  "char_of (243::nat) = CHR 0xF3"
  by (simp_all only: code_unit_table[unfolded code_unit_def, symmetric] char_of_char)

lemma toLowerChar_table:
  "toLowerChar (CHR 0x09) = CHR 0x09"
  "toLowerChar (CHR 0x0A) = CHR 0x0A"
  "toLowerChar (CHR 0x0D) = CHR 0x0D"
  "toLowerChar (CHR 0x20) = CHR 0x20"
  "toLowerChar (CHR 0x21) = CHR 0x21"
  "toLowerChar (CHR 0x22) = CHR 0x22"
  "toLowerChar (CHR 0x23) = CHR 0x23"
  "toLowerChar (CHR 0x24) = CHR 0x24"
  "toLowerChar (CHR 0x25) = CHR 0x25"
  "toLowerChar (CHR 0x26) = CHR 0x26"
  "toLowerChar (CHR 0x27) = CHR 0x27"
  "toLowerChar (CHR 0x28) = CHR 0x28"
  "toLowerChar (CHR 0x29) = CHR 0x29"
  "toLowerChar (CHR 0x2A) = CHR 0x2A"
  "toLowerChar (CHR 0x2B) = CHR 0x2B"
  "toLowerChar (CHR 0x2C) = CHR 0x2C"
  "toLowerChar (CHR 0x2D) = CHR 0x2D"
  "toLowerChar (CHR 0x2E) = CHR 0x2E"
  "toLowerChar (CHR 0x2F) = CHR 0x2F"
  "toLowerChar (CHR 0x30) = CHR 0x30"
  "toLowerChar (CHR 0x31) = CHR 0x31"
  "toLowerChar (CHR 0x32) = CHR 0x32"
  "toLowerChar (CHR 0x33) = CHR 0x33"
  "toLowerChar (CHR 0x34) = CHR 0x34"
  "toLowerChar (CHR 0x35) = CHR 0x35"
  "toLowerChar (CHR 0x36) = CHR 0x36"
  "toLowerChar (CHR 0x37) = CHR 0x37"
  "toLowerChar (CHR 0x38) = CHR 0x38"
  "toLowerChar (CHR 0x39) = CHR 0x39"
  "toLowerChar (CHR 0x3A) = CHR 0x3A"
  "toLowerChar (CHR 0x3B) = CHR 0x3B"
  "toLowerChar (CHR 0x3C) = CHR 0x3C"
  "toLowerChar (CHR 0x3D) = CHR 0x3D"
  "toLowerChar (CHR 0x3E) = CHR 0x3E"
  "toLowerChar (CHR 0x3F) = CHR 0x3F"
  "toLowerChar (CHR 0x40) = CHR 0x40"
  "toLowerChar (CHR 0x41) = CHR 0x61"
  "toLowerChar (CHR 0x42) = CHR 0x62"
  "toLowerChar (CHR 0x43) = CHR 0x63"
  "toLowerChar (CHR 0x44) = CHR 0x64"
  "toLowerChar (CHR 0x45) = CHR 0x65"
  "toLowerChar (CHR 0x46) = CHR 0x66"
  "toLowerChar (CHR 0x47) = CHR 0x67"
  "toLowerChar (CHR 0x48) = CHR 0x68"
  "toLowerChar (CHR 0x49) = CHR 0x69"
  "toLowerChar (CHR 0x4A) = CHR 0x6A"
  "toLowerChar (CHR 0x4B) = CHR 0x6B"
  "toLowerChar (CHR 0x4C) = CHR 0x6C"
  "toLowerChar (CHR 0x4D) = CHR 0x6D"
  "toLowerChar (CHR 0x4E) = CHR 0x6E"
  "toLowerChar (CHR 0x4F) = CHR 0x6F"
  "toLowerChar (CHR 0x50) = CHR 0x70"
  "toLowerChar (CHR 0x51) = CHR 0x71"
  "toLowerChar (CHR 0x52) = CHR 0x72"
  "toLowerChar (CHR 0x53) = CHR 0x73"
  "toLowerChar (CHR 0x54) = CHR 0x74"
  "toLowerChar (CHR 0x55) = CHR 0x75"
  "toLowerChar (CHR 0x56) = CHR 0x76"
  "toLowerChar (CHR 0x57) = CHR 0x77"
  "toLowerChar (CHR 0x58) = CHR 0x78"
  "toLowerChar (CHR 0x59) = CHR 0x79"
  "toLowerChar (CHR 0x5A) = CHR 0x7A"
  "toLowerChar (CHR 0x5B) = CHR 0x5B"
  "toLowerChar (CHR 0x5C) = CHR 0x5C"
  "toLowerChar (CHR 0x5D) = CHR 0x5D"
  "toLowerChar (CHR 0x5E) = CHR 0x5E"
  "toLowerChar (CHR 0x5F) = CHR 0x5F"
  "toLowerChar (CHR 0x60) = CHR 0x60"
  "toLowerChar (CHR 0x61) = CHR 0x61"
  "toLowerChar (CHR 0x62) = CHR 0x62"
  "toLowerChar (CHR 0x63) = CHR 0x63"
  "toLowerChar (CHR 0x64) = CHR 0x64"
  "toLowerChar (CHR 0x65) = CHR 0x65"
  "toLowerChar (CHR 0x66) = CHR 0x66"
  "toLowerChar (CHR 0x67) = CHR 0x67"
  "toLowerChar (CHR 0x68) = CHR 0x68"
  "toLowerChar (CHR 0x69) = CHR 0x69"
  "toLowerChar (CHR 0x6A) = CHR 0x6A"
  "toLowerChar (CHR 0x6B) = CHR 0x6B"
  "toLowerChar (CHR 0x6C) = CHR 0x6C"
  "toLowerChar (CHR 0x6D) = CHR 0x6D"
  "toLowerChar (CHR 0x6E) = CHR 0x6E"
  "toLowerChar (CHR 0x6F) = CHR 0x6F"
  "toLowerChar (CHR 0x70) = CHR 0x70"
  "toLowerChar (CHR 0x71) = CHR 0x71"
  "toLowerChar (CHR 0x72) = CHR 0x72"
  "toLowerChar (CHR 0x73) = CHR 0x73"
  "toLowerChar (CHR 0x74) = CHR 0x74"
  "toLowerChar (CHR 0x75) = CHR 0x75"
  "toLowerChar (CHR 0x76) = CHR 0x76"
  "toLowerChar (CHR 0x77) = CHR 0x77"
  "toLowerChar (CHR 0x78) = CHR 0x78"
  "toLowerChar (CHR 0x79) = CHR 0x79"
  "toLowerChar (CHR 0x7A) = CHR 0x7A"
  "toLowerChar (CHR 0x7B) = CHR 0x7B"
  "toLowerChar (CHR 0x7C) = CHR 0x7C"
  "toLowerChar (CHR 0x7D) = CHR 0x7D"
  "toLowerChar (CHR 0x7E) = CHR 0x7E"
  "toLowerChar (CHR 0xA0) = CHR 0xA0"
  "toLowerChar (CHR 0xC1) = CHR 0xE1"
  "toLowerChar (CHR 0xD3) = CHR 0xF3"
  "toLowerChar (CHR 0xE1) = CHR 0xE1"
  "toLowerChar (CHR 0xF3) = CHR 0xF3"
  by (simp_all add: toLowerChar_def code_unit_table char_of_table)

lemma canonicalize_table:
  "canonicalize (CHR 0x09) = CHR 0x09"
  "canonicalize (CHR 0x0A) = CHR 0x0A"
  "canonicalize (CHR 0x0D) = CHR 0x0D"
  "canonicalize (CHR 0x20) = CHR 0x20"
  "canonicalize (CHR 0x21) = CHR 0x21"
  "canonicalize (CHR 0x22) = CHR 0x22"
  "canonicalize (CHR 0x23) = CHR 0x23"
  "canonicalize (CHR 0x24) = CHR 0x24"
  "canonicalize (CHR 0x25) = CHR 0x25"
  "canonicalize (CHR 0x26) = CHR 0x26"
  "canonicalize (CHR 0x27) = CHR 0x27"
  "canonicalize (CHR 0x28) = CHR 0x28"
  "canonicalize (CHR 0x29) = CHR 0x29"
  "canonicalize (CHR 0x2A) = CHR 0x2A"
  "canonicalize (CHR 0x2B) = CHR 0x2B"
  "canonicalize (CHR 0x2C) = CHR 0x2C"
  "canonicalize (CHR 0x2D) = CHR 0x2D"
  "canonicalize (CHR 0x2E) = CHR 0x2E"
  "canonicalize (CHR 0x2F) = CHR 0x2F"
  "canonicalize (CHR 0x30) = CHR 0x30"
  "canonicalize (CHR 0x31) = CHR 0x31"
  "canonicalize (CHR 0x32) = CHR 0x32"
  "canonicalize (CHR 0x33) = CHR 0x33"
  "canonicalize (CHR 0x34) = CHR 0x34"
  "canonicalize (CHR 0x35) = CHR 0x35"
  "canonicalize (CHR 0x36) = CHR 0x36"
  "canonicalize (CHR 0x37) = CHR 0x37"
  "canonicalize (CHR 0x38) = CHR 0x38"
  "canonicalize (CHR 0x39) = CHR 0x39"
  "canonicalize (CHR 0x3A) = CHR 0x3A"
  "canonicalize (CHR 0x3B) = CHR 0x3B"
  "canonicalize (CHR 0x3C) = CHR 0x3C"
  "canonicalize (CHR 0x3D) = CHR 0x3D"
  "canonicalize (CHR 0x3E) = CHR 0x3E"
  "canonicalize (CHR 0x3F) = CHR 0x3F"
  "canonicalize (CHR 0x40) = CHR 0x40"
  "canonicalize (CHR 0x41) = CHR 0x41"
  "canonicalize (CHR 0x42) = CHR 0x42"
  "canonicalize (CHR 0x43) = CHR 0x43"
  "canonicalize (CHR 0x44) = CHR 0x44"
  "canonicalize (CHR 0x45) = CHR 0x45"
  "canonicalize (CHR 0x46) = CHR 0x46"
  "canonicalize (CHR 0x47) = CHR 0x47"
  "canonicalize (CHR 0x48) = CHR 0x48"
  "canonicalize (CHR 0x49) = CHR 0x49"
  "canonicalize (CHR 0x4A) = CHR 0x4A"
  "canonicalize (CHR 0x4B) = CHR 0x4B"
  "canonicalize (CHR 0x4C) = CHR 0x4C"
  "canonicalize (CHR 0x4D) = CHR 0x4D"
  "canonicalize (CHR 0x4E) = CHR 0x4E"
  "canonicalize (CHR 0x4F) = CHR 0x4F"
  "canonicalize (CHR 0x50) = CHR 0x50"
  "canonicalize (CHR 0x51) = CHR 0x51"
  "canonicalize (CHR 0x52) = CHR 0x52"
  "canonicalize (CHR 0x53) = CHR 0x53"
  "canonicalize (CHR 0x54) = CHR 0x54"
  "canonicalize (CHR 0x55) = CHR 0x55"
  "canonicalize (CHR 0x56) = CHR 0x56"
  "canonicalize (CHR 0x57) = CHR 0x57"
  "canonicalize (CHR 0x58) = CHR 0x58"
  "canonicalize (CHR 0x59) = CHR 0x59"
  "canonicalize (CHR 0x5A) = CHR 0x5A"
  "canonicalize (CHR 0x5B) = CHR 0x5B"
  "canonicalize (CHR 0x5C) = CHR 0x5C"
  "canonicalize (CHR 0x5D) = CHR 0x5D"
  "canonicalize (CHR 0x5E) = CHR 0x5E"
  "canonicalize (CHR 0x5F) = CHR 0x5F"
  "canonicalize (CHR 0x60) = CHR 0x60"
  "canonicalize (CHR 0x61) = CHR 0x41"
  "canonicalize (CHR 0x62) = CHR 0x42"
  "canonicalize (CHR 0x63) = CHR 0x43"
  "canonicalize (CHR 0x64) = CHR 0x44"
  "canonicalize (CHR 0x65) = CHR 0x45"
  "canonicalize (CHR 0x66) = CHR 0x46"
  "canonicalize (CHR 0x67) = CHR 0x47"
  "canonicalize (CHR 0x68) = CHR 0x48"
  "canonicalize (CHR 0x69) = CHR 0x49"
  "canonicalize (CHR 0x6A) = CHR 0x4A"
  "canonicalize (CHR 0x6B) = CHR 0x4B"
  "canonicalize (CHR 0x6C) = CHR 0x4C"
  "canonicalize (CHR 0x6D) = CHR 0x4D"
  "canonicalize (CHR 0x6E) = CHR 0x4E"
  "canonicalize (CHR 0x6F) = CHR 0x4F"
  "canonicalize (CHR 0x70) = CHR 0x50"
  "canonicalize (CHR 0x71) = CHR 0x51"
  "canonicalize (CHR 0x72) = CHR 0x52"
  "canonicalize (CHR 0x73) = CHR 0x53"
  "canonicalize (CHR 0x74) = CHR 0x54"
  "canonicalize (CHR 0x75) = CHR 0x55"
  "canonicalize (CHR 0x76) = CHR 0x56"
  "canonicalize (CHR 0x77) = CHR 0x57"
  "canonicalize (CHR 0x78) = CHR 0x58"
  "canonicalize (CHR 0x79) = CHR 0x59"
  "canonicalize (CHR 0x7A) = CHR 0x5A"
  "canonicalize (CHR 0x7B) = CHR 0x7B"
  "canonicalize (CHR 0x7C) = CHR 0x7C"
  "canonicalize (CHR 0x7D) = CHR 0x7D"
  "canonicalize (CHR 0x7E) = CHR 0x7E"
  "canonicalize (CHR 0xA0) = CHR 0xA0"
  "canonicalize (CHR 0xC1) = CHR 0xC1"
  "canonicalize (CHR 0xD3) = CHR 0xD3"
  "canonicalize (CHR 0xE1) = CHR 0xC1"
  "canonicalize (CHR 0xF3) = CHR 0xD3"
  by (simp_all add: canonicalize_def code_unit_table char_of_table)

lemma isWhiteSpace_table:
  "isWhiteSpace (CHR 0x09) = True"
  "isWhiteSpace (CHR 0x0A) = True"
  "isWhiteSpace (CHR 0x0D) = True"
  "isWhiteSpace (CHR 0x20) = True"
  "isWhiteSpace (CHR 0x21) = False"
  "isWhiteSpace (CHR 0x22) = False"
  "isWhiteSpace (CHR 0x23) = False"
  "isWhiteSpace (CHR 0x24) = False"
  "isWhiteSpace (CHR 0x25) = False"
  "isWhiteSpace (CHR 0x26) = False"
  "isWhiteSpace (CHR 0x27) = False"
  "isWhiteSpace (CHR 0x28) = False"
  "isWhiteSpace (CHR 0x29) = False"
  "isWhiteSpace (CHR 0x2A) = False"
  "isWhiteSpace (CHR 0x2B) = False"
  "isWhiteSpace (CHR 0x2C) = False"
  "isWhiteSpace (CHR 0x2D) = False"
  "isWhiteSpace (CHR 0x2E) = False"
  "isWhiteSpace (CHR 0x2F) = False"
  "isWhiteSpace (CHR 0x30) = False"
  "isWhiteSpace (CHR 0x31) = False"
  "isWhiteSpace (CHR 0x32) = False"
  "isWhiteSpace (CHR 0x33) = False"
  "isWhiteSpace (CHR 0x34) = False"
  "isWhiteSpace (CHR 0x35) = False"
  "isWhiteSpace (CHR 0x36) = False"
  "isWhiteSpace (CHR 0x37) = False"
  "isWhiteSpace (CHR 0x38) = False"
  "isWhiteSpace (CHR 0x39) = False"
  "isWhiteSpace (CHR 0x3A) = False"
  "isWhiteSpace (CHR 0x3B) = False"
  "isWhiteSpace (CHR 0x3C) = False"
  "isWhiteSpace (CHR 0x3D) = False"
  "isWhiteSpace (CHR 0x3E) = False"
  "isWhiteSpace (CHR 0x3F) = False"
  "isWhiteSpace (CHR 0x40) = False"
  "isWhiteSpace (CHR 0x41) = False"
  "isWhiteSpace (CHR 0x42) = False"
  "isWhiteSpace (CHR 0x43) = False"
  "isWhiteSpace (CHR 0x44) = False"
  "isWhiteSpace (CHR 0x45) = False"
  "isWhiteSpace (CHR 0x46) = False"
  "isWhiteSpace (CHR 0x47) = False"
  "isWhiteSpace (CHR 0x48) = False"
  "isWhiteSpace (CHR 0x49) = False"
  "isWhiteSpace (CHR 0x4A) = False"
  "isWhiteSpace (CHR 0x4B) = False"
  "isWhiteSpace (CHR 0x4C) = False"
  "isWhiteSpace (CHR 0x4D) = False"
  "isWhiteSpace (CHR 0x4E) = False"
  "isWhiteSpace (CHR 0x4F) = False"
  "isWhiteSpace (CHR 0x50) = False"
  "isWhiteSpace (CHR 0x51) = False"
  "isWhiteSpace (CHR 0x52) = False"
  "isWhiteSpace (CHR 0x53) = False"
  "isWhiteSpace (CHR 0x54) = False"
  "isWhiteSpace (CHR 0x55) = False"
  "isWhiteSpace (CHR 0x56) = False"
  "isWhiteSpace (CHR 0x57) = False"
  "isWhiteSpace (CHR 0x58) = False"
  "isWhiteSpace (CHR 0x59) = False"
  "isWhiteSpace (CHR 0x5A) = False"
  "isWhiteSpace (CHR 0x5B) = False"
  "isWhiteSpace (CHR 0x5C) = False"
  "isWhiteSpace (CHR 0x5D) = False"
  "isWhiteSpace (CHR 0x5E) = False"
  "isWhiteSpace (CHR 0x5F) = False"
  "isWhiteSpace (CHR 0x60) = False"
  "isWhiteSpace (CHR 0x61) = False"
  "isWhiteSpace (CHR 0x62) = False"
  "isWhiteSpace (CHR 0x63) = False"
  "isWhiteSpace (CHR 0x64) = False"
  "isWhiteSpace (CHR 0x65) = False"
  "isWhiteSpace (CHR 0x66) = False"
  "isWhiteSpace (CHR 0x67) = False"
  "isWhiteSpace (CHR 0x68) = False"
  "isWhiteSpace (CHR 0x69) = False"
  "isWhiteSpace (CHR 0x6A) = False"
  "isWhiteSpace (CHR 0x6B) = False"
  "isWhiteSpace (CHR 0x6C) = False"
  "isWhiteSpace (CHR 0x6D) = False"
  "isWhiteSpace (CHR 0x6E) = False"
  "isWhiteSpace (CHR 0x6F) = False"
  "isWhiteSpace (CHR 0x70) = False"
  "isWhiteSpace (CHR 0x71) = False"
  "isWhiteSpace (CHR 0x72) = False"
  "isWhiteSpace (CHR 0x73) = False"
  "isWhiteSpace (CHR 0x74) = False"
  "isWhiteSpace (CHR 0x75) = False"
  "isWhiteSpace (CHR 0x76) = False"
  "isWhiteSpace (CHR 0x77) = False"
  "isWhiteSpace (CHR 0x78) = False"
  "isWhiteSpace (CHR 0x79) = False"
  "isWhiteSpace (CHR 0x7A) = False"
  "isWhiteSpace (CHR 0x7B) = False"
  "isWhiteSpace (CHR 0x7C) = False"
  "isWhiteSpace (CHR 0x7D) = False"
  "isWhiteSpace (CHR 0x7E) = False"
  "isWhiteSpace (CHR 0xA0) = True"
  "isWhiteSpace (CHR 0xC1) = False"
  "isWhiteSpace (CHR 0xD3) = False"
  "isWhiteSpace (CHR 0xE1) = False"
  "isWhiteSpace (CHR 0xF3) = False"
  by (simp_all add: isWhiteSpace_def code_unit_table)

lemma isLineTerminator_table:
  "isLineTerminator (CHR 0x09) = False"
  "isLineTerminator (CHR 0x0A) = True"
  "isLineTerminator (CHR 0x0D) = True"
  "isLineTerminator (CHR 0x20) = False"
  "isLineTerminator (CHR 0x21) = False"
  "isLineTerminator (CHR 0x22) = False"
  "isLineTerminator (CHR 0x23) = False"
  "isLineTerminator (CHR 0x24) = False"
  "isLineTerminator (CHR 0x25) = False"
  "isLineTerminator (CHR 0x26) = False"
  "isLineTerminator (CHR 0x27) = False"
  "isLineTerminator (CHR 0x28) = False"
  "isLineTerminator (CHR 0x29) = False"
  "isLineTerminator (CHR 0x2A) = False"
  "isLineTerminator (CHR 0x2B) = False"
  "isLineTerminator (CHR 0x2C) = False"
  "isLineTerminator (CHR 0x2D) = False"
  "isLineTerminator (CHR 0x2E) = False"
  "isLineTerminator (CHR 0x2F) = False"
  "isLineTerminator (CHR 0x30) = False"
  "isLineTerminator (CHR 0x31) = False"
  "isLineTerminator (CHR 0x32) = False"
  "isLineTerminator (CHR 0x33) = False"
  "isLineTerminator (CHR 0x34) = False"
  "isLineTerminator (CHR 0x35) = False"
  "isLineTerminator (CHR 0x36) = False"
  "isLineTerminator (CHR 0x37) = False"
  "isLineTerminator (CHR 0x38) = False"
  "isLineTerminator (CHR 0x39) = False"
  "isLineTerminator (CHR 0x3A) = False"
  "isLineTerminator (CHR 0x3B) = False"
  "isLineTerminator (CHR 0x3C) = False"
  "isLineTerminator (CHR 0x3D) = False"
  "isLineTerminator (CHR 0x3E) = False"
  "isLineTerminator (CHR 0x3F) = False"
  "isLineTerminator (CHR 0x40) = False"
  "isLineTerminator (CHR 0x41) = False"
  "isLineTerminator (CHR 0x42) = False"
  "isLineTerminator (CHR 0x43) = False"
  "isLineTerminator (CHR 0x44) = False"
  "isLineTerminator (CHR 0x45) = False"
  "isLineTerminator (CHR 0x46) = False"
  "isLineTerminator (CHR 0x47) = False"
  "isLineTerminator (CHR 0x48) = False"
  "isLineTerminator (CHR 0x49) = False"
  "isLineTerminator (CHR 0x4A) = False"
  "isLineTerminator (CHR 0x4B) = False"
  "isLineTerminator (CHR 0x4C) = False"
  "isLineTerminator (CHR 0x4D) = False"
  "isLineTerminator (CHR 0x4E) = False"
  "isLineTerminator (CHR 0x4F) = False"
  "isLineTerminator (CHR 0x50) = False"
  "isLineTerminator (CHR 0x51) = False"
  "isLineTerminator (CHR 0x52) = False"
  "isLineTerminator (CHR 0x53) = False"
  "isLineTerminator (CHR 0x54) = False"
  "isLineTerminator (CHR 0x55) = False"
  "isLineTerminator (CHR 0x56) = False"
  "isLineTerminator (CHR 0x57) = False"
  "isLineTerminator (CHR 0x58) = False"
  "isLineTerminator (CHR 0x59) = False"
  "isLineTerminator (CHR 0x5A) = False"
  "isLineTerminator (CHR 0x5B) = False"
  "isLineTerminator (CHR 0x5C) = False"
  "isLineTerminator (CHR 0x5D) = False"
  "isLineTerminator (CHR 0x5E) = False"
  "isLineTerminator (CHR 0x5F) = False"
  "isLineTerminator (CHR 0x60) = False"
  "isLineTerminator (CHR 0x61) = False"
  "isLineTerminator (CHR 0x62) = False"
  "isLineTerminator (CHR 0x63) = False"
  "isLineTerminator (CHR 0x64) = False"
  "isLineTerminator (CHR 0x65) = False"
  "isLineTerminator (CHR 0x66) = False"
  "isLineTerminator (CHR 0x67) = False"
  "isLineTerminator (CHR 0x68) = False"
  "isLineTerminator (CHR 0x69) = False"
  "isLineTerminator (CHR 0x6A) = False"
  "isLineTerminator (CHR 0x6B) = False"
  "isLineTerminator (CHR 0x6C) = False"
  "isLineTerminator (CHR 0x6D) = False"
  "isLineTerminator (CHR 0x6E) = False"
  "isLineTerminator (CHR 0x6F) = False"
  "isLineTerminator (CHR 0x70) = False"
  "isLineTerminator (CHR 0x71) = False"
  "isLineTerminator (CHR 0x72) = False"
  "isLineTerminator (CHR 0x73) = False"
  "isLineTerminator (CHR 0x74) = False"
  "isLineTerminator (CHR 0x75) = False"
  "isLineTerminator (CHR 0x76) = False"
  "isLineTerminator (CHR 0x77) = False"
  "isLineTerminator (CHR 0x78) = False"
  "isLineTerminator (CHR 0x79) = False"
  "isLineTerminator (CHR 0x7A) = False"
  "isLineTerminator (CHR 0x7B) = False"
  "isLineTerminator (CHR 0x7C) = False"
  "isLineTerminator (CHR 0x7D) = False"
  "isLineTerminator (CHR 0x7E) = False"
  "isLineTerminator (CHR 0xA0) = False"
  "isLineTerminator (CHR 0xC1) = False"
  "isLineTerminator (CHR 0xD3) = False"
  "isLineTerminator (CHR 0xE1) = False"
  "isLineTerminator (CHR 0xF3) = False"
  by (simp_all add: isLineTerminator_def code_unit_table)

lemma isDigit_table:
  "isDigit (CHR 0x09) = False"
  "isDigit (CHR 0x0A) = False"
  "isDigit (CHR 0x0D) = False"
  "isDigit (CHR 0x20) = False"
  "isDigit (CHR 0x21) = False"
  "isDigit (CHR 0x22) = False"
  "isDigit (CHR 0x23) = False"
  "isDigit (CHR 0x24) = False"
  "isDigit (CHR 0x25) = False"
  "isDigit (CHR 0x26) = False"
  "isDigit (CHR 0x27) = False"
  "isDigit (CHR 0x28) = False"
  "isDigit (CHR 0x29) = False"
  "isDigit (CHR 0x2A) = False"
  "isDigit (CHR 0x2B) = False"
  "isDigit (CHR 0x2C) = False"
  "isDigit (CHR 0x2D) = False"
  "isDigit (CHR 0x2E) = False"
  "isDigit (CHR 0x2F) = False"
  "isDigit (CHR 0x30) = True"
  "isDigit (CHR 0x31) = True"
  "isDigit (CHR 0x32) = True"
  "isDigit (CHR 0x33) = True"
  "isDigit (CHR 0x34) = True"
  "isDigit (CHR 0x35) = True"
  "isDigit (CHR 0x36) = True"
  "isDigit (CHR 0x37) = True"
  "isDigit (CHR 0x38) = True"
  "isDigit (CHR 0x39) = True"
  "isDigit (CHR 0x3A) = False"
  "isDigit (CHR 0x3B) = False"
  "isDigit (CHR 0x3C) = False"
  "isDigit (CHR 0x3D) = False"
  "isDigit (CHR 0x3E) = False"
  "isDigit (CHR 0x3F) = False"
  "isDigit (CHR 0x40) = False"
  "isDigit (CHR 0x41) = False"
  "isDigit (CHR 0x42) = False"
  "isDigit (CHR 0x43) = False"
  "isDigit (CHR 0x44) = False"
  "isDigit (CHR 0x45) = False"
  "isDigit (CHR 0x46) = False"
  "isDigit (CHR 0x47) = False"
  "isDigit (CHR 0x48) = False"
  "isDigit (CHR 0x49) = False"
  "isDigit (CHR 0x4A) = False"
  "isDigit (CHR 0x4B) = False"
  "isDigit (CHR 0x4C) = False"
  "isDigit (CHR 0x4D) = False"
  "isDigit (CHR 0x4E) = False"
  "isDigit (CHR 0x4F) = False"
  "isDigit (CHR 0x50) = False"
  "isDigit (CHR 0x51) = False"
  "isDigit (CHR 0x52) = False"
  "isDigit (CHR 0x53) = False"
  "isDigit (CHR 0x54) = False"
  "isDigit (CHR 0x55) = False"
  "isDigit (CHR 0x56) = False"
  "isDigit (CHR 0x57) = False"
  "isDigit (CHR 0x58) = False"
  "isDigit (CHR 0x59) = False"
  "isDigit (CHR 0x5A) = False"
  "isDigit (CHR 0x5B) = False"
  "isDigit (CHR 0x5C) = False"
  "isDigit (CHR 0x5D) = False"
  "isDigit (CHR 0x5E) = False"
  "isDigit (CHR 0x5F) = False"
  "isDigit (CHR 0x60) = False"
  "isDigit (CHR 0x61) = False"
  "isDigit (CHR 0x62) = False"
  "isDigit (CHR 0x63) = False"
  "isDigit (CHR 0x64) = False"
  "isDigit (CHR 0x65) = False"
  "isDigit (CHR 0x66) = False"
  "isDigit (CHR 0x67) = False"
  "isDigit (CHR 0x68) = False"
  "isDigit (CHR 0x69) = False"
  "isDigit (CHR 0x6A) = False"
  "isDigit (CHR 0x6B) = False"
  "isDigit (CHR 0x6C) = False"
  "isDigit (CHR 0x6D) = False"
  "isDigit (CHR 0x6E) = False"
  "isDigit (CHR 0x6F) = False"
  "isDigit (CHR 0x70) = False"
  "isDigit (CHR 0x71) = False"
  "isDigit (CHR 0x72) = False"
  "isDigit (CHR 0x73) = False"
  "isDigit (CHR 0x74) = False"
  "isDigit (CHR 0x75) = False"
  "isDigit (CHR 0x76) = False"
  "isDigit (CHR 0x77) = False"
  "isDigit (CHR 0x78) = False"
  "isDigit (CHR 0x79) = False"
  "isDigit (CHR 0x7A) = False"
  "isDigit (CHR 0x7B) = False"
  "isDigit (CHR 0x7C) = False"
  "isDigit (CHR 0x7D) = False"
  "isDigit (CHR 0x7E) = False"
  "isDigit (CHR 0xA0) = False"
  "isDigit (CHR 0xC1) = False"
  "isDigit (CHR 0xD3) = False"
  "isDigit (CHR 0xE1) = False"
  "isDigit (CHR 0xF3) = False"
  by (simp_all add: isDigit_def code_unit_table)

lemma isAlpha_table:
  "isAlpha (CHR 0x09) = False"
  "isAlpha (CHR 0x0A) = False"
  "isAlpha (CHR 0x0D) = False"
  "isAlpha (CHR 0x20) = False"
  "isAlpha (CHR 0x21) = False"
  "isAlpha (CHR 0x22) = False"
  "isAlpha (CHR 0x23) = False"
  "isAlpha (CHR 0x24) = False"
  "isAlpha (CHR 0x25) = False"
  "isAlpha (CHR 0x26) = False"
  "isAlpha (CHR 0x27) = False"
  "isAlpha (CHR 0x28) = False"
  "isAlpha (CHR 0x29) = False"
  "isAlpha (CHR 0x2A) = False"
  "isAlpha (CHR 0x2B) = False"
  "isAlpha (CHR 0x2C) = False"
  "isAlpha (CHR 0x2D) = False"
  "isAlpha (CHR 0x2E) = False"
  "isAlpha (CHR 0x2F) = False"
  "isAlpha (CHR 0x30) = False"
  "isAlpha (CHR 0x31) = False"
  "isAlpha (CHR 0x32) = False"
  "isAlpha (CHR 0x33) = False"
  "isAlpha (CHR 0x34) = False"
  "isAlpha (CHR 0x35) = False"
  "isAlpha (CHR 0x36) = False"
  "isAlpha (CHR 0x37) = False"
  "isAlpha (CHR 0x38) = False"
  "isAlpha (CHR 0x39) = False"
  "isAlpha (CHR 0x3A) = False"
  "isAlpha (CHR 0x3B) = False"
  "isAlpha (CHR 0x3C) = False"
  "isAlpha (CHR 0x3D) = False"
  "isAlpha (CHR 0x3E) = False"
  "isAlpha (CHR 0x3F) = False"
  "isAlpha (CHR 0x40) = False"
  "isAlpha (CHR 0x41) = True"
  "isAlpha (CHR 0x42) = True"
  "isAlpha (CHR 0x43) = True"
  "isAlpha (CHR 0x44) = True"
  "isAlpha (CHR 0x45) = True"
  "isAlpha (CHR 0x46) = True"
  "isAlpha (CHR 0x47) = True"
  "isAlpha (CHR 0x48) = True"
  "isAlpha (CHR 0x49) = True"
  "isAlpha (CHR 0x4A) = True"
  "isAlpha (CHR 0x4B) = True"
  "isAlpha (CHR 0x4C) = True"
  "isAlpha (CHR 0x4D) = True"
  "isAlpha (CHR 0x4E) = True"
  "isAlpha (CHR 0x4F) = True"
  "isAlpha (CHR 0x50) = True"
  "isAlpha (CHR 0x51) = True"
  "isAlpha (CHR 0x52) = True"
  "isAlpha (CHR 0x53) = True"
  "isAlpha (CHR 0x54) = True"
  "isAlpha (CHR 0x55) = True"
  "isAlpha (CHR 0x56) = True"
  "isAlpha (CHR 0x57) = True"
  "isAlpha (CHR 0x58) = True"
  "isAlpha (CHR 0x59) = True"
  "isAlpha (CHR 0x5A) = True"
  "isAlpha (CHR 0x5B) = False"
  "isAlpha (CHR 0x5C) = False"
  "isAlpha (CHR 0x5D) = False"
  "isAlpha (CHR 0x5E) = False"
  "isAlpha (CHR 0x5F) = False"
  "isAlpha (CHR 0x60) = False"
  "isAlpha (CHR 0x61) = True"
  "isAlpha (CHR 0x62) = True"
  "isAlpha (CHR 0x63) = True"
  "isAlpha (CHR 0x64) = True"
  "isAlpha (CHR 0x65) = True"
  "isAlpha (CHR 0x66) = True"
  "isAlpha (CHR 0x67) = True"
  "isAlpha (CHR 0x68) = True"
  "isAlpha (CHR 0x69) = True"
  "isAlpha (CHR 0x6A) = True"
  "isAlpha (CHR 0x6B) = True"
  "isAlpha (CHR 0x6C) = True"
  "isAlpha (CHR 0x6D) = True"
  "isAlpha (CHR 0x6E) = True"
  "isAlpha (CHR 0x6F) = True"
  "isAlpha (CHR 0x70) = True"
  "isAlpha (CHR 0x71) = True"
  "isAlpha (CHR 0x72) = True"
  "isAlpha (CHR 0x73) = True"
  "isAlpha (CHR 0x74) = True"
  "isAlpha (CHR 0x75) = True"
  "isAlpha (CHR 0x76) = True"
  "isAlpha (CHR 0x77) = True"
  "isAlpha (CHR 0x78) = True"
  "isAlpha (CHR 0x79) = True"
  "isAlpha (CHR 0x7A) = True"
  "isAlpha (CHR 0x7B) = False"
  "isAlpha (CHR 0x7C) = False"
  "isAlpha (CHR 0x7D) = False"
  "isAlpha (CHR 0x7E) = False"
  "isAlpha (CHR 0xA0) = False"
  "isAlpha (CHR 0xC1) = False"
  "isAlpha (CHR 0xD3) = False"
  "isAlpha (CHR 0xE1) = False"
  "isAlpha (CHR 0xF3) = False"
  by (simp_all add: isAlpha_def code_unit_table)

lemma isAlnum_table:
  "isAlnum (CHR 0x09) = False"
  "isAlnum (CHR 0x0A) = False"
  "isAlnum (CHR 0x0D) = False"
  "isAlnum (CHR 0x20) = False"
  "isAlnum (CHR 0x21) = False"
  "isAlnum (CHR 0x22) = False"
  "isAlnum (CHR 0x23) = False"
  "isAlnum (CHR 0x24) = False"
  "isAlnum (CHR 0x25) = False"
  "isAlnum (CHR 0x26) = False"
  "isAlnum (CHR 0x27) = False"
  "isAlnum (CHR 0x28) = False"
  "isAlnum (CHR 0x29) = False"
  "isAlnum (CHR 0x2A) = False"
  "isAlnum (CHR 0x2B) = False"
  "isAlnum (CHR 0x2C) = False"
  "isAlnum (CHR 0x2D) = False"
  "isAlnum (CHR 0x2E) = False"
  "isAlnum (CHR 0x2F) = False"
  "isAlnum (CHR 0x30) = True"
  "isAlnum (CHR 0x31) = True"
  "isAlnum (CHR 0x32) = True"
  "isAlnum (CHR 0x33) = True"
  "isAlnum (CHR 0x34) = True"
  "isAlnum (CHR 0x35) = True"
  "isAlnum (CHR 0x36) = True"
  "isAlnum (CHR 0x37) = True"
  "isAlnum (CHR 0x38) = True"
  "isAlnum (CHR 0x39) = True"
  "isAlnum (CHR 0x3A) = False"
  "isAlnum (CHR 0x3B) = False"
  "isAlnum (CHR 0x3C) = False"
  "isAlnum (CHR 0x3D) = False"
  "isAlnum (CHR 0x3E) = False"
  "isAlnum (CHR 0x3F) = False"
  "isAlnum (CHR 0x40) = False"
  "isAlnum (CHR 0x41) = True"
  "isAlnum (CHR 0x42) = True"
  "isAlnum (CHR 0x43) = True"
  "isAlnum (CHR 0x44) = True"
  "isAlnum (CHR 0x45) = True"
  "isAlnum (CHR 0x46) = True"
  "isAlnum (CHR 0x47) = True"
  "isAlnum (CHR 0x48) = True"
  "isAlnum (CHR 0x49) = True"
  "isAlnum (CHR 0x4A) = True"
  "isAlnum (CHR 0x4B) = True"
  "isAlnum (CHR 0x4C) = True"
  "isAlnum (CHR 0x4D) = True"
  "isAlnum (CHR 0x4E) = True"
  "isAlnum (CHR 0x4F) = True"
  "isAlnum (CHR 0x50) = True"
  "isAlnum (CHR 0x51) = True"
  "isAlnum (CHR 0x52) = True"
  "isAlnum (CHR 0x53) = True"
  "isAlnum (CHR 0x54) = True"
  "isAlnum (CHR 0x55) = True"
  "isAlnum (CHR 0x56) = True"
  "isAlnum (CHR 0x57) = True"
  "isAlnum (CHR 0x58) = True"
  "isAlnum (CHR 0x59) = True"
  "isAlnum (CHR 0x5A) = True"
  "isAlnum (CHR 0x5B) = False"
  "isAlnum (CHR 0x5C) = False"
  "isAlnum (CHR 0x5D) = False"
  "isAlnum (CHR 0x5E) = False"
  "isAlnum (CHR 0x5F) = False"
  "isAlnum (CHR 0x60) = False"
  "isAlnum (CHR 0x61) = True"
  "isAlnum (CHR 0x62) = True"
  "isAlnum (CHR 0x63) = True"
  "isAlnum (CHR 0x64) = True"
  "isAlnum (CHR 0x65) = True"
  "isAlnum (CHR 0x66) = True"
  "isAlnum (CHR 0x67) = True"
  "isAlnum (CHR 0x68) = True"
  "isAlnum (CHR 0x69) = True"
  "isAlnum (CHR 0x6A) = True"
  "isAlnum (CHR 0x6B) = True"
  "isAlnum (CHR 0x6C) = True"
  "isAlnum (CHR 0x6D) = True"
  "isAlnum (CHR 0x6E) = True"
  "isAlnum (CHR 0x6F) = True"
  "isAlnum (CHR 0x70) = True"
  "isAlnum (CHR 0x71) = True"
  "isAlnum (CHR 0x72) = True"
  "isAlnum (CHR 0x73) = True"
  "isAlnum (CHR 0x74) = True"
  "isAlnum (CHR 0x75) = True"
  "isAlnum (CHR 0x76) = True"
  "isAlnum (CHR 0x77) = True"
  "isAlnum (CHR 0x78) = True"
  "isAlnum (CHR 0x79) = True"
  "isAlnum (CHR 0x7A) = True"
  "isAlnum (CHR 0x7B) = False"
  "isAlnum (CHR 0x7C) = False"
  "isAlnum (CHR 0x7D) = False"
  "isAlnum (CHR 0x7E) = False"
  "isAlnum (CHR 0xA0) = False"
  "isAlnum (CHR 0xC1) = False"
  "isAlnum (CHR 0xD3) = False"
  "isAlnum (CHR 0xE1) = False"
  "isAlnum (CHR 0xF3) = False"
  by (simp_all add: isAlnum_def isAlpha_table isDigit_table)

lemma isWordChar_table:
  "isWordChar (CHR 0x09) = False"
  "isWordChar (CHR 0x0A) = False"
  "isWordChar (CHR 0x0D) = False"
  "isWordChar (CHR 0x20) = False"
  "isWordChar (CHR 0x21) = False"
  "isWordChar (CHR 0x22) = False"
  "isWordChar (CHR 0x23) = False"
  "isWordChar (CHR 0x24) = False"
  "isWordChar (CHR 0x25) = False"
  "isWordChar (CHR 0x26) = False"
  "isWordChar (CHR 0x27) = False"
  "isWordChar (CHR 0x28) = False"
  "isWordChar (CHR 0x29) = False"
  "isWordChar (CHR 0x2A) = False"
  "isWordChar (CHR 0x2B) = False"
  "isWordChar (CHR 0x2C) = False"
  "isWordChar (CHR 0x2D) = False"
  "isWordChar (CHR 0x2E) = False"
  "isWordChar (CHR 0x2F) = False"
  "isWordChar (CHR 0x30) = True"
  "isWordChar (CHR 0x31) = True"
  "isWordChar (CHR 0x32) = True"
  "isWordChar (CHR 0x33) = True"
  "isWordChar (CHR 0x34) = True"
  "isWordChar (CHR 0x35) = True"
  "isWordChar (CHR 0x36) = True"
  "isWordChar (CHR 0x37) = True"
  "isWordChar (CHR 0x38) = True"
  "isWordChar (CHR 0x39) = True"
  "isWordChar (CHR 0x3A) = False"
  "isWordChar (CHR 0x3B) = False"
  "isWordChar (CHR 0x3C) = False"
  "isWordChar (CHR 0x3D) = False"
  "isWordChar (CHR 0x3E) = False"
  "isWordChar (CHR 0x3F) = False"
  "isWordChar (CHR 0x40) = False"
  "isWordChar (CHR 0x41) = True"
  "isWordChar (CHR 0x42) = True"
  "isWordChar (CHR 0x43) = True"
  "isWordChar (CHR 0x44) = True"
  "isWordChar (CHR 0x45) = True"
  "isWordChar (CHR 0x46) = True"
  "isWordChar (CHR 0x47) = True"
  "isWordChar (CHR 0x48) = True"
  "isWordChar (CHR 0x49) = True"
  "isWordChar (CHR 0x4A) = True"
  "isWordChar (CHR 0x4B) = True"
  "isWordChar (CHR 0x4C) = True"
  "isWordChar (CHR 0x4D) = True"
  "isWordChar (CHR 0x4E) = True"
  "isWordChar (CHR 0x4F) = True"
  "isWordChar (CHR 0x50) = True"
  "isWordChar (CHR 0x51) = True"
  "isWordChar (CHR 0x52) = True"
  "isWordChar (CHR 0x53) = True"
  "isWordChar (CHR 0x54) = True"
  "isWordChar (CHR 0x55) = True"
  "isWordChar (CHR 0x56) = True"
  "isWordChar (CHR 0x57) = True"
  "isWordChar (CHR 0x58) = True"
  "isWordChar (CHR 0x59) = True"
  "isWordChar (CHR 0x5A) = True"
  "isWordChar (CHR 0x5B) = False"
  "isWordChar (CHR 0x5C) = False"
  "isWordChar (CHR 0x5D) = False"
  "isWordChar (CHR 0x5E) = False"
  "isWordChar (CHR 0x5F) = True"
  "isWordChar (CHR 0x60) = False"
  "isWordChar (CHR 0x61) = True"
  "isWordChar (CHR 0x62) = True"
  "isWordChar (CHR 0x63) = True"
  "isWordChar (CHR 0x64) = True"
  "isWordChar (CHR 0x65) = True"
  "isWordChar (CHR 0x66) = True"
  "isWordChar (CHR 0x67) = True"
  "isWordChar (CHR 0x68) = True"
  "isWordChar (CHR 0x69) = True"
  "isWordChar (CHR 0x6A) = True"
  "isWordChar (CHR 0x6B) = True"
  "isWordChar (CHR 0x6C) = True"
  "isWordChar (CHR 0x6D) = True"
  "isWordChar (CHR 0x6E) = True"
  "isWordChar (CHR 0x6F) = True"
  "isWordChar (CHR 0x70) = True"
  "isWordChar (CHR 0x71) = True"
  "isWordChar (CHR 0x72) = True"
  "isWordChar (CHR 0x73) = True"
  "isWordChar (CHR 0x74) = True"
  "isWordChar (CHR 0x75) = True"
  "isWordChar (CHR 0x76) = True"
  "isWordChar (CHR 0x77) = True"
  "isWordChar (CHR 0x78) = True"
  "isWordChar (CHR 0x79) = True"
  "isWordChar (CHR 0x7A) = True"
  "isWordChar (CHR 0x7B) = False"
  "isWordChar (CHR 0x7C) = False"
  "isWordChar (CHR 0x7D) = False"
  "isWordChar (CHR 0x7E) = False"
  "isWordChar (CHR 0xA0) = False"
  "isWordChar (CHR 0xC1) = False"
  "isWordChar (CHR 0xD3) = False"
  "isWordChar (CHR 0xE1) = False"
  "isWordChar (CHR 0xF3) = False"
  by (simp_all add: isWordChar_def isAlnum_table)

lemmas char_tables = toLowerChar_table canonicalize_table isWhiteSpace_table
  isLineTerminator_table isDigit_table isAlpha_table isAlnum_table isWordChar_table

section \<open>Properties of the confirmation prompt\<close>

lemma code_unit_char_of: "n < 256 \<Longrightarrow> code_unit (char_of n) = n"
  by (simp add: code_unit_def)

lemma char_of_code_unit: "char_of (code_unit c) = c"
  by (simp add: code_unit_def)

lemma toLowerChar_eq_iff:
  assumes "97 \<le> (k::nat)" "k \<le> 122"
  shows "toLowerChar c = char_of k \<longleftrightarrow> c = char_of k \<or> c = char_of (k - 32)"
proof -
  have kk: "code_unit (char_of k) = k" "code_unit (char_of (k - 32)) = k - 32"
    using assms by (simp_all add: code_unit_char_of)
  show ?thesis
  proof (cases "(65 \<le> code_unit c \<and> code_unit c \<le> 90) \<or>
                (192 \<le> code_unit c \<and> code_unit c \<le> 222 \<and> code_unit c \<noteq> 215)")
    case True
    then have l: "toLowerChar c = char_of (code_unit c + 32)"
      by (auto simp add: toLowerChar_def Let_def)
    have cu: "code_unit (char_of (code_unit c + 32)) = code_unit c + 32"
      using True by (auto simp add: code_unit_char_of)
    show ?thesis
    proof
      assume "toLowerChar c = char_of k"
      then have "code_unit c + 32 = k" using l cu kk by metis
      then have "code_unit c = k - 32" by simp
      then show "c = char_of k \<or> c = char_of (k - 32)" using char_of_code_unit by metis
    next
      assume "c = char_of k \<or> c = char_of (k - 32)"
      then have "code_unit c = k - 32" using True kk assms by auto
      then show "toLowerChar c = char_of k" using l assms by simp
    qed
  next
    case False
    then have l: "toLowerChar c = c" by (auto simp add: toLowerChar_def Let_def)
    have "c \<noteq> char_of (k - 32)" using False kk(2) assms by auto
    then show ?thesis using l by auto
  qed
qed

lemma toLowerCase_single:
  assumes "97 \<le> (k::nat)" "k \<le> 122"
  shows "toLowerCase s = [char_of k] \<longleftrightarrow> s = [char_of k] \<or> s = [char_of (k - 32)]"
  using toLowerChar_eq_iff[OF assms] by (cases s) (auto simp: toLowerCase_def)

lemma answer_letters:
  "CHR ''y'' = char_of (121::nat)" "CHR ''Y'' = char_of (121 - 32 ::nat)"
  "CHR ''s'' = char_of (115::nat)" "CHR ''S'' = char_of (115 - 32::nat)"
proof -
  have "of_char CHR ''y'' = (121::nat)" "of_char CHR ''Y'' = (89::nat)"
    "of_char CHR ''s'' = (115::nat)" "of_char CHR ''S'' = (83::nat)" by simp_all
  then have "char_of (121::nat) = CHR ''y''" "char_of (89::nat) = CHR ''Y''"
    "char_of (115::nat) = CHR ''s''" "char_of (83::nat) = CHR ''S''"
    by (metis char_of_char)+
  then show "CHR ''y'' = char_of (121::nat)" "CHR ''Y'' = char_of (121 - 32 ::nat)"
    "CHR ''s'' = char_of (115::nat)" "CHR ''S'' = char_of (115 - 32::nat)" by simp_all
qed

text \<open>
  Claim C9, as the program has it: the prompt returns true exactly for the answers of one
  character \<open>y\<close>, \<open>Y\<close>, \<open>s\<close> and \<open>S\<close> (the answer is lower-cased and compared with
  \<open>'y'\<close> and \<open>'s'\<close>, with no trimming). Every other answer, the empty one and the word
  \<open>yes\<close> among them, is a decline.
\<close>

theorem requestConfirmation_single_letter:
  "requestConfirmation answer \<longleftrightarrow> answer \<in> {''y'', ''Y'', ''s'', ''S''}"
  unfolding requestConfirmation_def answer_letters
  using toLowerCase_single[of 121 answer] toLowerCase_single[of 115 answer] by auto

text \<open>
  Claim C9 as written says that the answer \<open>yes\<close> is affirmative. The program declines it.
\<close>

theorem requestConfirmation_yes_declined:
  "requestConfirmation ''yes'' = False"
  by (simp add: requestConfirmation_def toLowerCase_def toLowerChar_def code_unit_def)

section \<open>Properties of the intent analysis\<close>

lemmas regex_eval = regex_test_def regex_match_def regex_exec_def char_eq_def rep_counts_def
  close_group_def group_def flags_i_def flags_im_def flags_none_def oneOrMore_def zeroOrMore_def

lemma getAction_setAction: "getAction a (setAction b f) = (a = b \<or> getAction a f)"
  by (cases a; cases b; simp)

lemma detectActions_count:
  "detectActions tbl n (f, k) = (f', k') \<Longrightarrow>
     k' = k + length (filter (\<lambda>(a, ps). anyPatternMatches ps n) tbl)"
proof (induction tbl arbitrary: f k)
  case Nil
  then show ?case by simp
next
  case (Cons e tbl)
  obtain b ps where e: "e = (b, ps)" by (cases e)
  show ?case
  proof (cases "anyPatternMatches ps n")
    case True
    with Cons.prems e have "detectActions tbl n (setAction b f, k + 1) = (f', k')" by simp
    from Cons.IH[OF this] True e show ?thesis by simp
  next
    case False
    with Cons.prems e have "detectActions tbl n (f, k) = (f', k')" by simp
    from Cons.IH[OF this] False e show ?thesis by simp
  qed
qed

lemma detectActions_flags:
  "detectActions tbl n (f, k) = (f', k') \<Longrightarrow>
     getAction a f' = (getAction a f \<or> (\<exists>ps. (a, ps) \<in> set tbl \<and> anyPatternMatches ps n))"
proof (induction tbl arbitrary: f k)
  case Nil
  then show ?case by simp
next
  case (Cons e tbl)
  obtain b ps where e: "e = (b, ps)" by (cases e)
  show ?case
  proof (cases "anyPatternMatches ps n")
    case True
    with Cons.prems e have "detectActions tbl n (setAction b f, k + 1) = (f', k')" by simp
    from Cons.IH[OF this] True e show ?thesis by (auto simp: getAction_setAction)
  next
    case False
    with Cons.prems e have "detectActions tbl n (f, k) = (f', k')" by simp
    from Cons.IH[OF this] False e show ?thesis by auto
  qed
qed

lemma detectActions_table:
  assumes "detectActions actionPatterns n (noActions, 0) = (f, k)"
  shows "k = matchedActionCount f"
proof -
  have g: "\<And>a. getAction a f = (\<exists>ps. (a, ps) \<in> set actionPatterns \<and> anyPatternMatches ps n)"
    using detectActions_flags[OF assms] by (case_tac a) (simp_all add: noActions_def)
  have m: "map (\<lambda>(a, ps). anyPatternMatches ps n) actionPatterns
           = [develop f, debug f, optimize f, refactor f, test f, document f, analyze f]"
    using g[of Develop] g[of Debug] g[of Optimize] g[of Refactor] g[of Test] g[of Document]
      g[of Analyze]
    by (simp add: actionPatterns_def)
  have "k = length (filter (\<lambda>(a, ps). anyPatternMatches ps n) actionPatterns)"
    using detectActions_count[OF assms] by simp
  also have "\<dots> = length (filter id (map (\<lambda>(a, ps). anyPatternMatches ps n) actionPatterns))"
    by (simp add: filter_map comp_def)
  finally show ?thesis unfolding m matchedActionCount_def .
qed

lemma detectActions_none:
  "\<forall>(a, patterns) \<in> set tbl. \<not> anyPatternMatches patterns n \<Longrightarrow> detectActions tbl n st = st"
  by (induction tbl n st rule: detectActions.induct) auto

text \<open>
  Claim C7: when no pattern of an action matches the command, \<open>analyzeIntent\<close> returns the
  seven flags all false and the confidence 0. For every command, the flag of an action is
  set exactly when a pattern of that action matches the command in lower case, the number
  of flags that are set is the number \<open>n\<close> of actions with a matching pattern, and the
  confidence is \<open>min(1, n / 3)\<close>.
\<close>

theorem analyzeIntent_confidence:
  "(noKeywordMatches command \<longrightarrow>
      actions (analyzeIntent command) = noActions \<and> confidence (analyzeIntent command) = 0)
   \<and> (\<forall>a. getAction a (actions (analyzeIntent command))
          \<longleftrightarrow> (\<exists>patterns. (a, patterns) \<in> set actionPatterns
                \<and> anyPatternMatches patterns (toLowerCase command)))
   \<and> matchedActionCount (actions (analyzeIntent command)) = matchedPatternCount command
   \<and> confidence (analyzeIntent command) = min 1 (of_nat (matchedPatternCount command) / 3)"
proof -
  obtain f k where d: "detectActions actionPatterns (toLowerCase command) (noActions, 0) = (f, k)"
    by (cases "detectActions actionPatterns (toLowerCase command) (noActions, 0)")
  have a: "actions (analyzeIntent command) = f"
    and c: "confidence (analyzeIntent command) = min 1 (of_nat k / 3)"
    using d by (simp_all add: analyzeIntent_def Let_def)
  have k: "k = matchedActionCount f" using d by (rule detectActions_table)
  have n: "k = matchedPatternCount command"
    using detectActions_count[OF d] by (simp add: matchedPatternCount_def)
  have g: "\<And>a. getAction a f
      \<longleftrightarrow> (\<exists>patterns. (a, patterns) \<in> set actionPatterns
            \<and> anyPatternMatches patterns (toLowerCase command))"
    using detectActions_flags[OF d] by (case_tac a) (simp_all add: noActions_def)
  have z: "noKeywordMatches command \<Longrightarrow> f = noActions \<and> k = 0"
    using detectActions_none[of actionPatterns "toLowerCase command" "(noActions, 0)"] d
    by (simp add: noKeywordMatches_def)
  show ?thesis
  proof (intro conjI impI allI)
    assume h: "noKeywordMatches command"
    from z[OF h] a show "actions (analyzeIntent command) = noActions" by simp
    from z[OF h] c show "confidence (analyzeIntent command) = 0" by simp
  next
    fix a
    show "getAction a (actions (analyzeIntent command))
      \<longleftrightarrow> (\<exists>patterns. (a, patterns) \<in> set actionPatterns
            \<and> anyPatternMatches patterns (toLowerCase command))"
      unfolding a by (rule g)
  next
    show "matchedActionCount (actions (analyzeIntent command)) = matchedPatternCount command"
      using a k n by simp
  next
    show "confidence (analyzeIntent command) = min 1 (of_nat (matchedPatternCount command) / 3)"
      using c n by simp
  qed
qed

text \<open>The command \<open>hello world\<close> has no keyword of an action. In \<open>fix the bug\<close> only the
  pattern of \<open>debug\<close> matches: that flag alone is set and the confidence is a third. In
  \<open>build test fix doc\<close> the patterns of four actions match and the confidence is 1.\<close>

theorem analyzeIntent_confidence_witness:
  "noKeywordMatches ''hello world''
   \<and> actions (analyzeIntent ''hello world'') = noActions
   \<and> confidence (analyzeIntent ''hello world'') = 0
   \<and> matchedPatternCount ''fix the bug'' = 1
   \<and> debug (actions (analyzeIntent ''fix the bug''))
   \<and> matchedActionCount (actions (analyzeIntent ''fix the bug'')) = 1
   \<and> confidence (analyzeIntent ''fix the bug'') = 1 / 3
   \<and> matchedPatternCount ''build test fix doc'' = 4
   \<and> confidence (analyzeIntent ''build test fix doc'') = 1"
proof -
  have h: "noKeywordMatches ''hello world''"
    unfolding noKeywordMatches_def
    by (simp add: char_tables regex_eval toLowerCase_def actionPatterns_def)
  have f: "matchedPatternCount ''fix the bug'' = 1"
    by (simp add: matchedPatternCount_def char_tables regex_eval toLowerCase_def actionPatterns_def)
  have m: "anyPatternMatches (snd (actionPatterns ! 1)) (toLowerCase ''fix the bug'')"
    by (simp add: char_tables regex_eval toLowerCase_def actionPatterns_def)
  have b: "matchedPatternCount ''build test fix doc'' = 4"
    by (simp add: matchedPatternCount_def char_tables regex_eval toLowerCase_def actionPatterns_def)
  have d: "debug (actions (analyzeIntent ''fix the bug''))"
    using analyzeIntent_confidence[of "''fix the bug''", THEN conjunct2, THEN conjunct1,
        THEN spec, of Debug] m
    by (auto simp: actionPatterns_def)
  from analyzeIntent_confidence[of "''hello world''"] h
  have 1: "actions (analyzeIntent ''hello world'') = noActions
           \<and> confidence (analyzeIntent ''hello world'') = 0" by blast
  from analyzeIntent_confidence[of "''fix the bug''"] f
  have 2: "matchedActionCount (actions (analyzeIntent ''fix the bug'')) = 1
           \<and> confidence (analyzeIntent ''fix the bug'') = 1 / 3" by simp
  from analyzeIntent_confidence[of "''build test fix doc''"] b
  have 3: "confidence (analyzeIntent ''build test fix doc'') = 1" by simp
  show ?thesis using h 1 f d 2 b 3 by blast
qed
section \<open>Properties of the code extraction\<close>

lemma lit_at_refl: "lit_at flags_none l (l @ s)"
  by (induction l) (simp_all add: char_eq_def flags_none_def)

lemma fence_fails:
  "lone_backticks (c # cs) \<Longrightarrow> \<not> lit_at flags_none fence ((c # cs) @ fence @ s)"
  by (cases cs) (auto simp: fence_def char_eq_def flags_none_def backtick_def)

lemma fence_fails_end:
  "lone_backticks (c # cs) \<Longrightarrow> \<not> lit_at flags_none fence (c # cs)"
  by (cases cs) (auto simp: fence_def char_eq_def flags_none_def backtick_def)

lemma lone_backticks_drop: "lone_backticks s \<Longrightarrow> lone_backticks (drop n s)"
proof (induction s arbitrary: n rule: lone_backticks.induct)
  case 1 then show ?case by simp
next
  case (2 c) then show ?case by (cases n) simp_all
next
  case (3 c d s)
  then show ?case by (cases n) simp_all
qed

lemma rsearch_skip:
  "lone_backticks pre \<Longrightarrow>
   rsearch flags_none (Lit fence # r) i (pre @ fence @ s) = rsearch flags_none (Lit fence # r) (i + length pre) (fence @ s)"
proof (induction pre arbitrary: i)
  case Nil
  then show ?case by simp
next
  case (Cons c cs)
  have "\<not> lit_at flags_none fence ((c # cs) @ fence @ s)" using Cons.prems by (rule fence_fails)
  moreover have "lone_backticks cs" using lone_backticks_drop[OF Cons.prems, of 1] by simp
  ultimately show ?case using Cons.IH[of "Suc i"] by simp
qed

lemma rsearch_none:
  "lone_backticks s \<Longrightarrow> rsearch flags_none (Lit fence # r) i s = None"
proof (induction s arbitrary: i)
  case Nil
  then show ?case by (simp add: fence_def)
next
  case (Cons c cs)
  have "\<not> lit_at flags_none fence (c # cs)" using Cons.prems by (rule fence_fails_end)
  moreover have "lone_backticks cs" using lone_backticks_drop[OF Cons.prems, of 1] by simp
  ultimately show ?case using Cons.IH[of "Suc i"] by simp
qed

lemma first_match_first:
  "\<forall>a \<in> set xs. f a = None \<Longrightarrow> f x = Some y \<Longrightarrow> first_match f (xs @ x # ys) = Some y"
  by (induction xs) simp_all

lemma first_match_upt:
  assumes "\<forall>n<k. f n = None" "f k = Some y" "k < m"
  shows "first_match f [0..<m] = Some y"
proof -
  have "[0..<m] = [0..<k] @ k # [Suc k..<m]"
    using assms(3) by (metis le0 upt_add_eq_append upt_conv_Cons le_add_diff_inverse less_imp_le_nat)
  then show ?thesis using first_match_first[of "[0..<k]" f k y] assms by simp
qed

lemma takeWhile_lang:
  "\<forall>c\<in>set lang. isWordChar c \<Longrightarrow> takeWhile isWordChar (lang @ newline @ s) = lang"
  by (simp add: takeWhile_append2 newline_def isWordChar_table)

lemma rmatch_Lit: "rmatch flags_none (Lit l # r) (l @ s) st = rmatch flags_none r s st"
  by (simp add: lit_at_refl)

lemma rmatch_Open: "rmatch fl (Open k # r) s st = rmatch fl r s (st\<lparr>opened := (k, s) # opened st\<rparr>)"
  by simp

lemma rmatch_Close: "rmatch fl (Close k # r) s st = rmatch fl r s (close_group k s st)"
  by simp

lemma rmatch_Rep:
  "rmatch fl (Rep cls lo hi g # r) s st
   = first_match (\<lambda>n. rmatch fl r (drop n s) st) (rep_counts cls lo hi g s)"
  by simp

lemma rmatch_block:
  assumes lang: "lang \<noteq> []" "\<forall>c\<in>set lang. isWordChar c"
    and body: "lone_backticks body"
  shows "\<exists>st. rmatch flags_none codeBlockPattern (fence @ lang @ newline @ body @ fence @ post)
           \<lparr>opened = [], captures = []\<rparr> = Some (post, st) \<and> captures st = [(2, body), (1, lang)]"
proof -
  define Y where "Y = body @ fence @ post"
  define X where "X = lang @ newline @ Y"
  define st0 where "st0 = \<lparr>opened = [], captures = []\<rparr>"
  define st1 where "st1 = \<lparr>opened = [(1, X)], captures = []\<rparr>"
  define st2 where "st2 = \<lparr>opened = [(1, X)], captures = [(1, lang)]\<rparr>"
  define st3 where "st3 = \<lparr>opened = [(2, Y), (1, X)], captures = [(1, lang)]\<rparr>"
  define st4 where "st4 = \<lparr>opened = [(2, Y), (1, X)], captures = [(2, body), (1, lang)]\<rparr>"
  define tail3 where "tail3 = [Close 2, Lit fence]"
  define tail2 where "tail2 = Rep (\<lambda>c. True) 0 None False # tail3"
  define tail1 where "tail1 = Close 1 # Lit newline # Open 2 # tail2"
  define g where "g = (\<lambda>n. rmatch flags_none tail3 (drop n Y) st3)"
  define h where "h = (\<lambda>n. rmatch flags_none tail1 (drop n X) st1)"
  have g_none: "\<forall>n<length body. g n = None"
  proof (intro allI impI)
    fix n assume n: "n < length body"
    then obtain c cs where d: "drop n body = c # cs" by (cases "drop n body") auto
    have "lone_backticks (c # cs)" using lone_backticks_drop[OF body, of n] d by simp
    then have "\<not> lit_at flags_none fence ((c # cs) @ fence @ post)" by (rule fence_fails)
    then show "g n = None" using n d by (simp add: g_def Y_def tail3_def)
  qed
  have cl2: "close_group 2 (fence @ post) st3 = st4"
    by (simp add: close_group_def st3_def st4_def Y_def)
  have "g (length body) = rmatch flags_none tail3 (fence @ post) st3"
    by (simp add: g_def Y_def)
  also have "\<dots> = Some (post, st4)"
    unfolding tail3_def rmatch_Close cl2 rmatch_Lit by simp
  finally have g_some: "g (length body) = Some (post, st4)" .
  have lazy: "first_match g [0..<Suc (length Y)] = Some (post, st4)"
    using first_match_upt[of "length body" g "(post, st4)" "Suc (length Y)"] g_none g_some
    by (simp add: Y_def)
  have rc: "rep_counts (\<lambda>c. True) 0 None False Y = [0..<Suc (length Y)]"
    by (simp add: rep_counts_def Let_def takeWhile_eq_all_conv[THEN iffD2])
  have a3: "rmatch flags_none tail2 Y st3 = Some (post, st4)"
    unfolding tail2_def rmatch_Rep rc using lazy unfolding g_def .
  have o2: "st2\<lparr>opened := (2, Y) # opened st2\<rparr> = st3"
    by (simp add: st2_def st3_def)
  have cl1: "close_group 1 (newline @ Y) st1 = st2"
    by (simp add: close_group_def st1_def st2_def X_def)
  have "h (length lang) = rmatch flags_none tail1 (newline @ Y) st1"
    by (simp add: h_def X_def)
  also have "\<dots> = Some (post, st4)"
    unfolding tail1_def rmatch_Close cl1 rmatch_Lit rmatch_Open o2 by (rule a3)
  finally have h_some: "h (length lang) = Some (post, st4)" .
  have counts: "rep_counts isWordChar 1 None True X = length lang # rev [1..<length lang]"
    using lang takeWhile_lang[OF lang(2), of Y]
    by (cases lang) (simp_all add: rep_counts_def X_def)
  have a1: "rmatch flags_none (oneOrMore isWordChar # tail1) X st1 = Some (post, st4)"
    unfolding oneOrMore_def rmatch_Rep counts using h_some unfolding h_def by simp
  have o1: "st0\<lparr>opened := (1, X) # opened st0\<rparr> = st1"
    by (simp add: st0_def st1_def)
  have pat: "codeBlockPattern = Lit fence # Open 1 # oneOrMore isWordChar # tail1"
    by (simp add: codeBlockPattern_def tail1_def tail2_def tail3_def)
  have "rmatch flags_none codeBlockPattern (fence @ X) st0 = Some (post, st4)"
    unfolding pat rmatch_Lit rmatch_Open o1 by (rule a1)
  then show ?thesis by (auto simp: X_def Y_def st4_def st0_def)
qed

lemma trim_trailing_newline:
  assumes "c \<noteq> []" "\<not> isWhiteSpace (hd c)" "\<not> isWhiteSpace (last c)"
  shows "trim (c @ newline) = c"
proof -
  have 1: "dropWhile isWhiteSpace (c @ newline) = c @ newline"
    using assms(1,2) by (simp add: dropWhile_eq_self_iff)
  have "dropWhile isWhiteSpace (rev c) = rev c"
    using assms(1,3) by (simp add: dropWhile_eq_self_iff hd_rev)
  then have 2: "dropWhile isWhiteSpace (rev (c @ newline)) = rev c"
    by (simp add: newline_def isWhiteSpace_table)
  show ?thesis unfolding trim_def 1 2 by simp
qed

lemma window_prefix: "length pre \<le> 300 \<Longrightarrow> substring (pre @ s) (length pre - 300) (length pre) = pre"
  by (simp add: substring_def)

lemma length_fenced: "length (fenced lang c) = length lang + length c + 8"
  by (simp add: fenced_def fence_def newline_def)

lemma rsearch_block_at:
  assumes "lone_backticks pre" "lang \<noteq> []" "\<forall>c\<in>set lang. isWordChar c" "lone_backticks body"
  shows "rsearch flags_none codeBlockPattern i (pre @ fence @ lang @ newline @ body @ fence @ post)
         = Some \<lparr>index = i + length pre, endIndex = i + length pre + (length lang + length body + 7),
                 groups = [(2, body), (1, lang)]\<rparr>"
proof -
  obtain st where st: "rmatch flags_none codeBlockPattern (fence @ lang @ newline @ body @ fence @ post)
           \<lparr>opened = [], captures = []\<rparr> = Some (post, st)" "captures st = [(2, body), (1, lang)]"
    using rmatch_block[OF assms(2,3,4)] by blast
  have "rsearch flags_none codeBlockPattern i (pre @ fence @ lang @ newline @ body @ fence @ post)
        = rsearch flags_none codeBlockPattern (i + length pre) (fence @ lang @ newline @ body @ fence @ post)"
    using rsearch_skip[OF assms(1), of _ i] by (simp add: codeBlockPattern_def)
  also have "\<dots> = Some \<lparr>index = i + length pre, endIndex = i + length pre + (length lang + length body + 7),
                 groups = [(2, body), (1, lang)]\<rparr>"
    using st by (simp add: fence_def newline_def)
  finally show ?thesis .
qed

lemma extractLoop_fenced:
  assumes "lone_backticks pre" "lang \<noteq> []" "\<forall>c\<in>set lang. isWordChar c"
    "lone_backticks (c @ newline)"
  shows "extractLoop (done @ pre @ fenced lang c @ rest) (length done) blocks
         = extractLoop (done @ pre @ fenced lang c @ rest) (length (done @ pre @ fenced lang c))
             (acceptMatch (done @ pre @ fenced lang c @ rest)
                \<lparr>index = length (done @ pre), endIndex = length (done @ pre @ fenced lang c),
                 groups = [(2, c @ newline), (1, lang)]\<rparr> blocks)"
proof -
  let ?r = "done @ pre @ fenced lang c @ rest"
  have d: "drop (length done) ?r = pre @ fence @ lang @ newline @ (c @ newline) @ fence @ rest"
    by (simp add: fenced_def)
  have "regex_exec flags_none codeBlockPattern ?r (length done)
        = rsearch flags_none codeBlockPattern (length done)
            (pre @ fence @ lang @ newline @ (c @ newline) @ fence @ rest)"
    unfolding regex_exec_def d by simp
  also have "\<dots> = Some \<lparr>index = length done + length pre,
                 endIndex = length done + length pre + (length lang + length (c @ newline) + 7),
                 groups = [(2, c @ newline), (1, lang)]\<rparr>"
    by (rule rsearch_block_at[OF assms])
  also have "\<dots> = Some \<lparr>index = length (done @ pre), endIndex = length (done @ pre @ fenced lang c),
                 groups = [(2, c @ newline), (1, lang)]\<rparr>"
    by (simp add: length_fenced newline_def)
  finally have e: "regex_exec flags_none codeBlockPattern ?r (length done)
        = Some \<lparr>index = length (done @ pre), endIndex = length (done @ pre @ fenced lang c),
                 groups = [(2, c @ newline), (1, lang)]\<rparr>" .
  show ?thesis
    by (subst extractLoop.simps, simp only: e option.case rresult.simps)
qed

lemma extractLoop_end:
  assumes "lone_backticks rest"
  shows "extractLoop (done @ rest) (length done) blocks = blocks"
proof -
  have "regex_exec flags_none codeBlockPattern (done @ rest) (length done) = None"
    using rsearch_none[OF assms] by (simp add: regex_exec_def codeBlockPattern_def)
  then show ?thesis by (subst extractLoop.simps) simp
qed

lemma acceptMatch_accept:
  assumes "group m 1 = lang" "trim (group m 2) = c" "MIN_CODE_LENGTH \<le> length c"
    "\<not> isCommandExample c" "extractPathBeforeBlock response (index m) = Some p"
    "isValidCodeBlock c lang (Some p)"
  shows "acceptMatch response m blocks
         = blocks @ [\<lparr>code = c, language = lang, path = Some p, metadata = analyzeCodeBlock c\<rparr>]"
  using assms by (simp add: acceptMatch_def Let_def)


lemma window_at:
  "length w \<le> 300 \<Longrightarrow> extractPathBeforeBlock (w @ s) (length w) = firstPath pathPatterns w"
  using window_prefix[of w s] by (simp add: extractPathBeforeBlock_def)

lemma extractLoop_fenced_accept:
  assumes "lone_backticks pre" "lang \<noteq> []" "\<forall>c\<in>set lang. isWordChar c" "deliverable c"
    "length (done @ pre) \<le> 300" "firstPath pathPatterns (done @ pre) = Some p"
    "isValidCodeBlock c lang (Some p)"
  shows "extractLoop (done @ pre @ fenced lang c @ rest) (length done) blocks
         = extractLoop (done @ pre @ fenced lang c @ rest) (length (done @ pre @ fenced lang c))
             (blocks @ [\<lparr>code = c, language = lang, path = Some p, metadata = analyzeCodeBlock c\<rparr>])"
proof -
  have l: "lone_backticks (c @ newline)" and t: "trim (c @ newline) = c"
    and m: "MIN_CODE_LENGTH \<le> length c" and n: "\<not> isCommandExample c"
    using assms(4) trim_trailing_newline[of c] by (simp_all add: deliverable_def)
  have w: "extractPathBeforeBlock (done @ pre @ fenced lang c @ rest) (length (done @ pre)) = Some p"
    using window_at[OF assms(5), of "fenced lang c @ rest"] assms(6) by simp
  then have w': "extractPathBeforeBlock (done @ pre @ fenced lang c @ rest) (length done + length pre) = Some p"
    by simp
  show ?thesis
    unfolding extractLoop_fenced[OF assms(1,2,3) l]
    by (subst acceptMatch_accept[where lang = lang and c = c and p = p])
       (simp_all add: group_def t m n w' assms(7))
qed

lemma extract_fenced_accept:
  assumes "lone_backticks pre" "lang \<noteq> []" "\<forall>c\<in>set lang. isWordChar c" "deliverable c"
    "length pre \<le> 300" "firstPath pathPatterns pre = Some p"
    "isValidCodeBlock c lang (Some p)"
  shows "extractCodeBlocks (pre @ fenced lang c @ newline)
         = [\<lparr>code = c, language = lang, path = Some p, metadata = analyzeCodeBlock c\<rparr>]"
proof -
  have e: "extractLoop ((pre @ fenced lang c) @ newline) (length (pre @ fenced lang c)) bs = bs" for bs
    by (rule extractLoop_end) (simp add: newline_def backtick_def)
  show ?thesis
    unfolding extractCodeBlocks_def
    using extractLoop_fenced_accept[where ?done = "[]", OF assms(1,2,3,4) _ _ assms(7), of newline "[]"]
      assms(5,6) e by simp
qed



lemma example_deliverable: "deliverable exampleCode"
  by (simp add: deliverable_def exampleCode_def newline_def backtick_def isWhiteSpace_table
      MIN_CODE_LENGTH_def isCommandExample_def toLowerCase_def toLowerChar_table
      commandPrefixes_def exampleMarkers_def startsWith_def)



lemma valid_path: "isValidCodeBlock c lang (Some ''src/x.ts'')"
  by (simp add: isValidCodeBlock_def pop_def first_def toLowerCase_def toLowerChar_table validExts_def
      suspiciousParts_def Let_def)

lemma tag_words:
  "''ts'' \<noteq> []" "\<forall>c\<in>set ''ts''. isWordChar c"
  "''typescript'' \<noteq> []" "\<forall>c\<in>set ''typescript''. isWordChar c"
  by (simp_all add: isWordChar_table)

lemma labelPrefix_facts:
  "lone_backticks labelPrefix" "length labelPrefix \<le> 300"
  "firstPath pathPatterns labelPrefix = Some ''src/x.ts''"
  by (simp_all add: labelPrefix_def pathPatterns_def labelPattern_def regex_eval char_tables
        newline_def backtick_def trim_def replace_char_def)

lemma extract_labelled: "extractCodeBlocks labelledResponse = [exampleBlock]"
  unfolding labelledResponse_def exampleBlock_def
  by (rule extract_fenced_accept[OF labelPrefix_facts(1) tag_words(1,2) example_deliverable
        labelPrefix_facts(2,3) valid_path])






lemma acceptMatch_member:
  "b \<in> set (acceptMatch response m blocks) \<Longrightarrow> b \<in> set blocks \<or> returnedAt response m b"
  by (auto simp: acceptMatch_def returnedAt_def Let_def split: if_splits)

lemma lit_at_take: "lit_at flags_none l s \<Longrightarrow> take (length l) s = l"
  by (induction flags_none l s rule: lit_at.induct) (simp_all add: char_eq_def flags_none_def)

lemma rsearch_index:
  "rsearch fl (Lit l # r) i s = Some m \<Longrightarrow> i \<le> index m \<and> lit_at fl l (drop (index m - i) s)"
proof (induction s arbitrary: i)
  case Nil
  then show ?case by (auto split: option.splits if_splits)
next
  case (Cons c cs)
  show ?case
  proof (cases "rmatch fl (Lit l # r) (c # cs) \<lparr>opened = [], captures = []\<rparr>")
    case None
    with Cons.prems have "rsearch fl (Lit l # r) (Suc i) cs = Some m" by simp
    from Cons.IH[OF this] have "Suc i \<le> index m" "lit_at fl l (drop (index m - Suc i) cs)"
      by simp_all
    moreover from this(1) have "index m - i = Suc (index m - Suc i)" by simp
    ultimately show ?thesis by simp
  next
    case (Some res)
    then have "lit_at fl l (c # cs)" by (simp split: if_splits)
    moreover from Cons.prems Some have "index m = i" by (auto split: prod.splits)
    ultimately show ?thesis by simp
  qed
qed

lemma exec_fenceAt:
  assumes "regex_exec flags_none codeBlockPattern response lastIndex = Some m"
  shows "fenceAt response (index m)"
proof -
  from assms have s: "rsearch flags_none codeBlockPattern lastIndex (drop lastIndex response) = Some m"
    by (simp add: regex_exec_def split: if_splits)
  then have i: "lastIndex \<le> index m"
    and l: "lit_at flags_none fence (drop (index m - lastIndex) (drop lastIndex response))"
    unfolding codeBlockPattern_def by (auto dest: rsearch_index)
  have "length fence = 3" by (simp add: fence_def)
  with lit_at_take[OF l] i show ?thesis by (simp add: fenceAt_def)
qed

lemma extractLoop_member:
  "b \<in> set (extractLoop response lastIndex blocks) \<Longrightarrow>
     b \<in> set blocks \<or> (\<exists>m. fenceAt response (index m) \<and> returnedAt response m b)"
proof (induction response lastIndex blocks rule: extractLoop.induct)
  case (1 response lastIndex blocks)
  show ?case
  proof (cases "regex_exec flags_none codeBlockPattern response lastIndex")
    case None
    with "1.prems" show ?thesis by (simp add: extractLoop.simps[of response lastIndex blocks])
  next
    case (Some m)
    with "1.prems" have "b \<in> set (extractLoop response (endIndex m) (acceptMatch response m blocks))"
      by (simp add: extractLoop.simps[of response lastIndex blocks])
    from "1.IH"[OF Some this] show ?thesis
      using acceptMatch_member exec_fenceAt[OF Some] by blast
  qed
qed

lemma extractCodeBlocks_member:
  "b \<in> set (extractCodeBlocks response) \<Longrightarrow>
     \<exists>m. fenceAt response (index m) \<and> returnedAt response m b"
  using extractLoop_member[of b response 0 "[]"] by (simp add: extractCodeBlocks_def)

lemma isValidCodeBlock_path:
  "isValidCodeBlock c l v \<Longrightarrow> \<exists>p. v = Some p \<and> p \<noteq> [] \<and> extension p \<in> set validExts"
  by (auto simp: isValidCodeBlock_def extension_def Let_def split: option.splits if_splits)


text \<open>
  Claim C6: for every response, no block returned by \<open>extractCodeBlocks\<close> has a code of
  fewer than 200 characters, whatever its language tag.
\<close>

theorem extractCodeBlocks_min_length:
  "\<forall>b \<in> set (extractCodeBlocks response). 200 \<le> length (code b)"
  using extractCodeBlocks_member by (fastforce simp: returnedAt_def MIN_CODE_LENGTH_def)

text \<open>The block of the labelled example is returned and has 211 characters.\<close>

theorem extractCodeBlocks_min_length_witness:
  "exampleBlock \<in> set (extractCodeBlocks labelledResponse) \<and> 200 \<le> length (code exampleBlock)"
  using extractCodeBlocks_min_length[of labelledResponse] by (simp add: extract_labelled)




section \<open>Properties of the file operations\<close>





text \<open>The validation reports \<open>isValid = false\<close> exactly for unbalanced braces or parentheses
  in a block with one of the four language tags.\<close>

lemma isValid_iff:
  "isValid (validateCode c l) \<longleftrightarrow>
     \<not> ((l = ''typescript'' \<or> l = ''javascript'' \<or> l = ''tsx'' \<or> l = ''jsx'')
        \<and> (count_char CHR ''{'' c \<noteq> count_char CHR ''}'' c
           \<or> count_char CHR ''('' c \<noteq> count_char CHR '')'' c))"
  by (simp add: validateCode_def checkComment_def checkLength_def checkDefinitions_def
      checkParens_def checkBraces_def initialValidation_def Let_def)

lemma join_src: "path_join projectDir ''src/x.ts'' = [''home'', ''project'', ''src'', ''x.ts'']"
  by (simp add: path_join_def projectDir_def join_step_def)


lemma lookup_update:
  "p \<noteq> [] \<Longrightarrow> lookup (AList.update p v fs) q = (if q = p then Some v else lookup fs q)"
  by (simp add: lookup_def update_conv')

lemma writeFileSync_Inr:
  "writeFileSync fs p c = Inr fs' \<Longrightarrow>
     p \<noteq> [] \<and> fs' = AList.update p (File c) fs \<and> lookup fs (butlast p) = Some Dir"
  by (auto simp: writeFileSync_def lookup_def split: option.splits node.splits if_splits)




lemma example_answers:
  "\<not> requestConfirmation ''n''" "requestConfirmation ''y''"
  by (simp_all add: requestConfirmation_def toLowerCase_def toLowerChar_table)




lemma emptyProject_lookups:
  "lookup emptyProject [''home'', ''project'', ''src''] = Some Dir"
  "lookup emptyProject [''home'', ''project'', ''src'', ''x.ts''] = None"
  by (simp_all add: lookup_def emptyProject_def)





lemma butlast_neq: "p \<noteq> [] \<Longrightarrow> butlast p \<noteq> p"
  by (metis length_butlast diff_less length_greater_0_conv less_numeral_extra(1) less_irrefl)








lemma applyBlock_intent:
  assumes "truthy (path b)"
  shows "applyBlock currentDir intent st b = applyBlock currentDir intent' st b"
proof -
  have r: "resolveFilePath b intent = resolveFilePath b intent'"
    using assms by (simp add: resolveFilePath_def)
  show ?thesis unfolding applyBlock_def r ..
qed

lemma foldl_applyBlock_intent:
  "\<forall>b \<in> set bs. truthy (path b) \<Longrightarrow>
     foldl (applyBlock currentDir intent) st bs = foldl (applyBlock currentDir intent') st bs"
proof (induction bs arbitrary: st)
  case Nil
  then show ?case by simp
next
  case (Cons b bs)
  then show ?case using applyBlock_intent[of b currentDir intent st intent'] by simp
qed

lemma fs_message_not_no_path: "fs_message e \<noteq> ''No file path specified''"
  by (cases e) simp_all

lemma applyBlock_no_path_error:
  assumes "truthy (path b)" "''No file path specified'' \<notin> set (resultErrors (snd st))"
  shows "''No file path specified'' \<notin> set (resultErrors (snd (applyBlock currentDir intent st b)))"
  using assms
  by (cases st) (auto simp: applyBlock_def Let_def caught_def resolveFilePath_def
      fs_message_not_no_path fs_message_not_no_path[THEN not_sym]
      split: sum.splits if_splits)

lemma foldl_no_path_error:
  "\<forall>b \<in> set bs. truthy (path b) \<Longrightarrow>
   ''No file path specified'' \<notin> set (resultErrors (snd st)) \<Longrightarrow>
   ''No file path specified'' \<notin> set (resultErrors (snd (foldl (applyBlock currentDir intent) st bs)))"
proof (induction bs arbitrary: st)
  case Nil
  then show ?case by simp
next
  case (Cons b bs)
  then show ?case using applyBlock_no_path_error[of b st currentDir intent] by simp
qed

lemma extracted_truthy: "b \<in> set (extractCodeBlocks response) \<Longrightarrow> \<exists>p. path b = Some p \<and> p \<noteq> []"
  using extractCodeBlocks_member[of b response] isValidCodeBlock_path
  unfolding returnedAt_def by blast

text \<open>
  Claim C10: every block that \<open>extractCodeBlocks\<close> returns has a path that is defined and
  not empty; so \<open>executeFileOperations\<close> on these blocks never uses the target file of the
  intent (its result is the same for every intent) and never records
  \<open>No file path specified\<close>.
\<close>

theorem extracted_blocks_have_path:
  "(\<forall>b \<in> set (extractCodeBlocks response). \<exists>p. path b = Some p \<and> p \<noteq> [])
   \<and> executeFileOperations fs currentDir (extractCodeBlocks response) intent
       = executeFileOperations fs currentDir (extractCodeBlocks response) intent'
   \<and> ''No file path specified''
       \<notin> set (resultErrors (snd (executeFileOperations fs currentDir (extractCodeBlocks response) intent)))"
proof -
  have t: "\<forall>b \<in> set (extractCodeBlocks response). truthy (path b)"
    using extracted_truthy by (fastforce simp: truthy_def)
  show ?thesis
    using extracted_truthy foldl_applyBlock_intent[OF t] foldl_no_path_error[OF t]
    by (auto simp: executeFileOperations_def initialResult_def)
qed

text \<open>
  The block of the labelled example.
\<close>

theorem extracted_blocks_have_path_witness:
  "exampleBlock \<in> set (extractCodeBlocks labelledResponse)
   \<and> (\<exists>p. path exampleBlock = Some p \<and> p \<noteq> [])
   \<and> ''No file path specified''
       \<notin> set (resultErrors (snd (executeFileOperations emptyProject projectDir
                 (extractCodeBlocks labelledResponse) exampleIntent)))"
proof -
  have m: "exampleBlock \<in> set (extractCodeBlocks labelledResponse)"
    by (simp add: extract_labelled)
  with extracted_blocks_have_path[of labelledResponse emptyProject projectDir exampleIntent exampleIntent]
  show ?thesis by blast
qed

section \<open>Properties of the command\<close>

lemma save_result:
  assumes "save rt fs u = Inr fs'"
  shows "\<exists>c. fs' = AList.update (configPath rt) (File c) fs \<and> configPath rt \<noteq> []"
proof -
  from assms obtain c where w: "writeFileSync fs (configPath rt) c = Inr fs'"
    by (auto simp: save_def configPath_def Let_def split: sum.splits if_splits)
  from writeFileSync_Inr[OF w] show ?thesis by blast
qed

lemma trackTokenUsage_result:
  assumes "trackTokenUsage rt fs n label = Inr fs'"
  shows "\<exists>c. fs' = AList.update (configPath rt) (File c) fs \<and> configPath rt \<noteq> []"
proof -
  from assms obtain u where "save rt fs u = Inr fs'"
    by (auto simp: trackTokenUsage_def Let_def split: sum.splits)
  then show ?thesis by (rule save_result)
qed

lemma executeWithAI_eq:
  "executeWithAI rt fs currentDir (scanProject (parseManifest rt) fs currentDir)
     (analyzeIntent command) command
   = (case ask rt (commandPrompt rt fs currentDir command) of
        Inl e \<Rightarrow> Inl e
      | Inr response \<Rightarrow>
         (case trackTokenUsage rt fs
                 (estimateTokens (commandPrompt rt fs currentDir command @ response)) ''ultra-agent'' of
            Inl e \<Rightarrow> Inl e
          | Inr fs' \<Rightarrow> Inr (response, fs')))"
  by (simp only: executeWithAI_def commandPrompt_def Let_def)

lemma execute_eq:
  "execute rt fs currentDir command
   = (case ask rt (commandPrompt rt fs currentDir command) of
        Inl e \<Rightarrow> (fs, Failed e)
      | Inr response \<Rightarrow>
         (case trackTokenUsage rt fs
                 (estimateTokens (commandPrompt rt fs currentDir command @ response)) ''ultra-agent'' of
            Inl e \<Rightarrow> (fs, Failed e)
          | Inr fs1 \<Rightarrow> processResponse rt fs1 currentDir response (analyzeIntent command)))"
  unfolding execute_def Let_def executeWithAI_eq by (simp split: sum.splits)

lemma processResponse_declined:
  "\<not> requestConfirmation (userAnswer rt) \<Longrightarrow>
     processResponse rt fs currentDir response intent = (fs, Cancelled)"
  by (simp add: processResponse_def)

text \<open>
  Claim C2, as the program has it: when the user declines, \<open>processResponse\<close> returns at
  once, with the file store as it was and no \<open>ExecutionResult\<close>. Over the whole command,
  every path other than the configuration file \<open>.vibecoderc.json\<close> of the working directory
  is as it was before the command, and no \<open>ExecutionResult\<close> is computed.
\<close>

theorem declined_command_effects:
  assumes "\<not> requestConfirmation (userAnswer rt)"
  shows "processResponse rt fs currentDir response intent = (fs, Cancelled)
         \<and> (\<forall>q. q \<noteq> configPath rt \<longrightarrow>
               lookup (fst (execute rt fs currentDir command)) q = lookup fs q)
         \<and> (\<forall>r. snd (execute rt fs currentDir command) \<noteq> Executed r)"
proof (intro conjI allI impI)
  show "processResponse rt fs currentDir response intent = (fs, Cancelled)"
    using assms by (rule processResponse_declined)
next
  fix q assume q: "q \<noteq> configPath rt"
  show "lookup (fst (execute rt fs currentDir command)) q = lookup fs q"
    unfolding execute_eq
    using q by (auto simp: processResponse_declined[OF assms] lookup_update
        split: sum.splits dest!: trackTokenUsage_result)
next
  fix r
  show "snd (execute rt fs currentDir command) \<noteq> Executed r"
    unfolding execute_eq
    by (auto simp: processResponse_declined[OF assms] split: sum.splits)
qed

lemma example_configPath:
  "configPath (exampleRuntime typed) = [''home'', ''project'', ''.vibecoderc.json'']"
  by (simp add: configPath_def exampleRuntime_def projectDir_def path_join_def join_step_def)

lemma example_load:
  "load (exampleRuntime typed)
   = Inr ((DEFAULT_CONFIG ''2025-01-01T00:00:00.000Z'')\<lparr>apiKey := Some ''sk-example'',
            provider := Some ''openai''\<rparr>)"
  by (simp add: load_def exampleRuntime_def truthy_def Let_def)

lemma example_track:
  "trackTokenUsage (exampleRuntime typed) emptyProject n label
   = Inr (emptyProject @ [([''home'', ''project'', ''.vibecoderc.json''], File ''{}'')])"
proof -
  have s: "save (exampleRuntime typed) emptyProject u
           = Inr (emptyProject @ [([''home'', ''project'', ''.vibecoderc.json''], File ''{}'')])" for u
    unfolding save_def Let_def configPath_def[symmetric] example_configPath
    by (simp add: existsSync_def lookup_def emptyProject_def writeFileSync_def exampleRuntime_def)
  show ?thesis
    unfolding trackTokenUsage_def example_load by (simp add: Let_def s)
qed

text \<open>
  Claim C2 as written says that after a decline every file is as it was before the command.
  The usage tracking of \<open>executeWithAI\<close> runs before the prompt and saves the configuration:
  after the answer \<open>n\<close> the project holds a file \<open>.vibecoderc.json\<close> that it did not hold.
\<close>

theorem declined_command_writes_usage:
  "\<not> requestConfirmation ''n''
   \<and> execute (exampleRuntime ''n'') emptyProject projectDir ''improve the module''
       = (emptyProject @ [([''home'', ''project'', ''.vibecoderc.json''], File ''{}'')], Cancelled)"
proof
  show "\<not> requestConfirmation ''n''" by (rule example_answers)
  have a: "ask (exampleRuntime ''n'') p = Inr labelledResponse" for p
    by (simp add: exampleRuntime_def)
  have u: "userAnswer (exampleRuntime ''n'') = ''n''" by (simp add: exampleRuntime_def)
  show "execute (exampleRuntime ''n'') emptyProject projectDir ''improve the module''
       = (emptyProject @ [([''home'', ''project'', ''.vibecoderc.json''], File ''{}'')], Cancelled)"
    unfolding execute_eq a example_track
    by (simp add: processResponse_def u example_answers)
qed

text \<open>
  The answer \<open>n\<close>: the response is not applied and \<open>src/x.ts\<close> does not exist afterwards.
\<close>

theorem declined_command_effects_witness:
  "\<not> requestConfirmation (userAnswer (exampleRuntime ''n''))
   \<and> processResponse (exampleRuntime ''n'') emptyProject projectDir labelledResponse exampleIntent
       = (emptyProject, Cancelled)
   \<and> lookup (fst (execute (exampleRuntime ''n'') emptyProject projectDir ''improve the module''))
        [''home'', ''project'', ''src'', ''x.ts''] = None"
proof -
  have d: "\<not> requestConfirmation (userAnswer (exampleRuntime ''n''))"
    by (simp add: exampleRuntime_def example_answers)
  have q: "[''home'', ''project'', ''src'', ''x.ts''] \<noteq> configPath (exampleRuntime ''n'')"
    by (simp add: example_configPath)
  from declined_command_effects[OF d, of emptyProject projectDir labelledResponse exampleIntent
      "''improve the module''"] q
  show ?thesis using d by (simp add: emptyProject_lookups)
qed

text \<open>
  Claim C4, as the program has it: the call of \<open>trackTokenUsage\<close> is awaited with no
  \<open>catch\<close> of its own. When the AI client has answered and the tracking throws, the error
  leaves \<open>executeWithAI\<close>: \<open>execute\<close> reports it in its error handler, the response is
  not processed and the file store is as it was.
\<close>

theorem tracking_error_fails_command:
  assumes "ask rt (commandPrompt rt fs currentDir command) = Inr response"
    and "trackTokenUsage rt fs
           (estimateTokens (commandPrompt rt fs currentDir command @ response)) ''ultra-agent''
         = Inl e"
  shows "execute rt fs currentDir command = (fs, Failed e)"
  unfolding execute_eq using assms by simp

lemma broken_track: "trackTokenUsage brokenRuntime fs n label = Inl SyntaxError"
  by (simp add: trackTokenUsage_def load_def brokenRuntime_def exampleRuntime_def)

text \<open>
  An environment in which the search of the configuration fails.
\<close>

theorem tracking_error_fails_command_witness:
  "ask brokenRuntime (commandPrompt brokenRuntime emptyProject projectDir ''improve the module'')
     = Inr labelledResponse
   \<and> trackTokenUsage brokenRuntime emptyProject
        (estimateTokens (commandPrompt brokenRuntime emptyProject projectDir ''improve the module''
           @ labelledResponse)) ''ultra-agent'' = Inl SyntaxError
   \<and> execute brokenRuntime emptyProject projectDir ''improve the module''
       = (emptyProject, Failed SyntaxError)"
proof -
  have a: "ask brokenRuntime (commandPrompt brokenRuntime emptyProject projectDir ''improve the module'')
     = Inr labelledResponse"
    by (simp add: brokenRuntime_def exampleRuntime_def)
  from tracking_error_fails_command[OF a broken_track] a broken_track show ?thesis by blast
qed

text \<open>
  Claim C4 as written says that the command completes normally when the tracking fails. Here
  the AI client has answered with a block for \<open>src/x.ts\<close> and the user would confirm, yet the
  command ends in the error handler with the error of the tracking and writes nothing.
\<close>

theorem tracking_error_stops_pipeline:
  "requestConfirmation (userAnswer brokenRuntime)
   \<and> execute brokenRuntime emptyProject projectDir ''improve the module''
       = (emptyProject, Failed SyntaxError)"
proof
  show "requestConfirmation (userAnswer brokenRuntime)"
    by (simp add: brokenRuntime_def exampleRuntime_def example_answers)
  have a: "ask brokenRuntime p = Inr labelledResponse" for p
    by (simp add: brokenRuntime_def exampleRuntime_def)
  show "execute brokenRuntime emptyProject projectDir ''improve the module''
       = (emptyProject, Failed SyntaxError)"
    unfolding execute_eq a broken_track by simp
qed

text \<open>With the usage tracking at work and the answer \<open>y\<close>, the same command writes the block.\<close>

lemma command_applies_block:
  "lookup (fst (execute (exampleRuntime ''y'') emptyProject projectDir ''improve the module''))
     [''home'', ''project'', ''src'', ''x.ts''] = Some (File exampleCode)
   \<and> (\<exists>r. snd (execute (exampleRuntime ''y'') emptyProject projectDir ''improve the module'') = Executed r)"
proof -
  have a: "ask (exampleRuntime ''y'') p = Inr labelledResponse" for p
    by (simp add: exampleRuntime_def)
  have u: "userAnswer (exampleRuntime ''y'') = ''y''" by (simp add: exampleRuntime_def)
  have v: "validateCode exampleCode ''ts'' = initialValidation" by (simp add: validateCode_def)
  show ?thesis
    unfolding execute_eq a example_track
    by (simp add: processResponse_def u example_answers extract_labelled executeFileOperations_def
        applyBlock_def exampleBlock_def v initialValidation_def resolveFilePath_def truthy_def
        join_src dirname_def existsSync_def lookup_def emptyProject_def mkdirSync_def
        writeFileSync_def Let_def)
qed

section \<open>Properties of the project scan\<close>

lemma flatName_inj: "flatName i = flatName j \<Longrightarrow> i = j"
proof -
  assume "flatName i = flatName j"
  then have "length (flatName i) = length (flatName j)" by simp
  then show "i = j" by (simp add: flatName_def)
qed

lemma flatName_hd: "flatName i = CHR ''a'' # replicate i CHR ''a'' @ ''.ts''"
  by (simp add: flatName_def)

lemma flatName_not_ignored: "\<not> shouldIgnoreItem (flatName i)"
  by (simp add: shouldIgnoreItem_def IGNORE_DIRECTORIES_def startsWith_def flatName_hd)

lemma flatName_relevant: "isRelevantFile (flatName i)"
  by (simp add: isRelevantFile_def RELEVANT_EXTENSIONS_def endsWith_def flatName_def suffix_def)

lemma map_of_flat:
  "i < n \<Longrightarrow> map_of (map (\<lambda>i. ([''home'', ''project'', flatName i], File c)) [0..<n])
      [''home'', ''project'', flatName i] = Some (File c)"
proof (induction n)
  case 0
  then show ?case by simp
next
  case (Suc n)
  show ?case
  proof (cases "i < n")
    case True
    from Suc.IH[OF this] show ?thesis by (simp add: map_of_append map_add_def)
  next
    case False
    with Suc.prems have i: "i = n" by simp
    have "[''home'', ''project'', flatName n] \<notin> fst ` set (map (\<lambda>i. ([''home'', ''project'', flatName i], File c)) [0..<n])"
      using flatName_inj by (fastforce simp: image_iff)
    then have "map_of (map (\<lambda>i. ([''home'', ''project'', flatName i], File c)) [0..<n]) [''home'', ''project'', flatName n] = None"
      by (simp add: map_of_eq_None_iff)
    then show ?thesis using i by (simp add: map_of_append map_add_def)
  qed
qed

lemma flat_stat:
  "i < n \<Longrightarrow> statSync (flatProject n) (projectDir @ [flatName i]) = Inr (File ''export {}'')"
  using map_of_flat[of i n "''export {}''"]
  by (simp add: statSync_def lookup_def flatProject_def projectDir_def)

lemma flat_readdir:
  "readdirSync (flatProject n) projectDir = Inr (map flatName [0..<n])"
proof -
  have d: "distinct (map flatName [0..<n])"
    using flatName_inj by (simp add: distinct_map inj_on_def)
  have f: "filter (\<lambda>(q, nd). q \<noteq> [] \<and> butlast q = [''home'', ''project''])
             (map (\<lambda>i. ([''home'', ''project'', flatName i], File ''export {}'')) [0..<n])
           = map (\<lambda>i. ([''home'', ''project'', flatName i], File ''export {}'')) [0..<n]"
    by (simp add: filter_map comp_def)
  have "readdirSync (flatProject n) projectDir
        = Inr (remdups (map (\<lambda>(q, nd). last q)
            (map (\<lambda>i. ([''home'', ''project'', flatName i], File ''export {}'')) [0..<n])))"
    using f by (simp add: readdirSync_def lookup_def flatProject_def projectDir_def)
  also have "\<dots> = Inr (remdups (map flatName [0..<n]))"
    by (simp add: comp_def)
  finally show ?thesis using d by (simp add: distinct_remdups_id)
qed

lemma scanItems_all:
  assumes "\<forall>item \<in> set items. \<not> shouldIgnoreItem item \<and> isRelevantFile item
             \<and> (\<exists>c. statSync fs (dir @ [item]) = Inr (File c))"
  shows "files (scanItems fs currentDir dir depth items ctx)
         = files ctx @ map (\<lambda>item. path_relative currentDir (dir @ [item])) items"
  using assms
proof (induction items arbitrary: ctx)
  case Nil
  then show ?case by simp
next
  case (Cons item items)
  then obtain c where c: "statSync fs (dir @ [item]) = Inr (File c)" by auto
  have "files (scanItems fs currentDir dir depth (item # items) ctx)
        = files (scanItems fs currentDir dir depth items
            (collectFile (path_relative currentDir (dir @ [item])) (utf8_size c) ctx))"
    using Cons.prems c by simp
  also have "\<dots> = files (collectFile (path_relative currentDir (dir @ [item])) (utf8_size c) ctx)
                    @ map (\<lambda>item. path_relative currentDir (dir @ [item])) items"
    using Cons.prems by (intro Cons.IH) simp
  finally show ?case by (simp add: collectFile_def)
qed

lemma flat_no_manifest:
  "detectTechnologies pm (flatProject n) projectDir ctx = ctx"
proof -
  have "[''home'', ''project'', ''package.json'']
          \<notin> fst ` set (map (\<lambda>i. ([''home'', ''project'', flatName i], File ''export {}'')) [0..<n])"
    by (auto simp: image_iff flatName_hd)
  then have "map_of (map (\<lambda>i. ([''home'', ''project'', flatName i], File ''export {}'')) [0..<n])
               [''home'', ''project'', ''package.json''] = None"
    by (simp add: map_of_eq_None_iff)
  then have "\<not> existsSync (flatProject n) (path_join projectDir ''package.json'')"
    by (simp add: existsSync_def lookup_def flatProject_def projectDir_def path_join_def join_step_def)
  then show ?thesis by (simp add: detectTechnologies_def)
qed

lemma scan_flat:
  "files (scanProject pm (flatProject n) projectDir) = map flatName [0..<n]"
proof -
  have a: "\<forall>item \<in> set (map flatName [0..<n]). \<not> shouldIgnoreItem item \<and> isRelevantFile item
             \<and> (\<exists>c. statSync (flatProject n) (projectDir @ [item]) = Inr (File c))"
    using flatName_not_ignored flatName_relevant flat_stat by auto
  have r: "path_relative projectDir (projectDir @ [item]) = item" for item
    by (simp add: path_relative_def)
  have "files (scanDirectory (flatProject n) projectDir projectDir 0 (initializeContext projectDir))
        = map flatName [0..<n]"
    using scanItems_all[OF a, of projectDir 0 "initializeContext projectDir"]
    by (simp add: flat_readdir MAX_SCAN_DEPTH_def MAX_SCAN_FILES_def initializeContext_def r)
  then show ?thesis by (simp add: scanProject_def flat_no_manifest Let_def)
qed

text \<open>
  Claim C5, the cap on the number of files: \<open>scanDirectory\<close> tests the cap only when it enters
  a directory, not for each file. In a directory that holds 51 source files the scan
  collects all 51, one more than \<open>MAX_SCAN_FILES\<close>.
\<close>

theorem scan_exceeds_file_cap:
  "length (files (scanProject (\<lambda>content. Inl SyntaxError) (flatProject 51) projectDir)) = 51
   \<and> MAX_SCAN_FILES = 50"
  by (simp add: scan_flat MAX_SCAN_FILES_def)


lemma withinDepth_item:
  "depth \<le> 4 \<Longrightarrow> withinDepth currentDir dir depth (path_relative currentDir (dir @ [item]))"
  unfolding withinDepth_def by (rule exI[of _ "[item]"]) simp

lemma withinDepth_sub:
  "withinDepth currentDir (dir @ [item]) (depth + 1) f \<Longrightarrow> withinDepth currentDir dir depth f"
proof -
  assume "withinDepth currentDir (dir @ [item]) (depth + 1) f"
  then obtain segs where s: "segs \<noteq> []" "depth + 1 + length segs \<le> 5"
    "f = path_relative currentDir ((dir @ [item]) @ segs)"
    unfolding withinDepth_def by blast
  show ?thesis unfolding withinDepth_def
    by (rule exI[of _ "item # segs"]) (use s in simp)
qed

text \<open>The bound on the depth holds: a file is collected only from a directory of depth at
  most 4, so its relative path has at most five segments.\<close>

lemma scan_depth:
  "(\<forall>f \<in> set (files (scanDirectory fs currentDir dir depth ctx)).
      f \<in> set (files ctx) \<or> withinDepth currentDir dir depth f)"
  "(depth \<le> 4 \<longrightarrow>
    (\<forall>f \<in> set (files (scanItems fs currentDir dir depth items ctx)).
      f \<in> set (files ctx) \<or> withinDepth currentDir dir depth f))"
proof (induction fs currentDir dir depth ctx and fs currentDir dir depth items ctx
    rule: scanDirectory_scanItems.induct)
  case (1 fs currentDir dir depth ctx)
  show ?case
  proof (cases "depth > MAX_SCAN_DEPTH \<or> length (files ctx) \<ge> MAX_SCAN_FILES")
    case True
    then show ?thesis by simp
  next
    case False
    show ?thesis
    proof (cases "readdirSync fs dir")
      case (Inl e)
      with False show ?thesis by simp
    next
      case (Inr items)
      from False have d: "depth \<le> 4" by (simp add: MAX_SCAN_DEPTH_def)
      from "1.IH"[OF False Inr] d False Inr show ?thesis by simp
    qed
  qed
next
  case (2 fs currentDir dir depth ctx)
  then show ?case by simp
next
  case (3 fs currentDir dir depth item items ctx)
  show ?case
  proof (intro impI)
    assume d: "depth \<le> 4"
    show "\<forall>f \<in> set (files (scanItems fs currentDir dir depth (item # items) ctx)).
            f \<in> set (files ctx) \<or> withinDepth currentDir dir depth f"
    proof (cases "shouldIgnoreItem item")
      case True
      with "3.IH"(1)[OF True] d show ?thesis by simp
    next
      case False
      show ?thesis
      proof (cases "statSync fs (dir @ [item])")
        case (Inl e)
        with "3.IH"(2)[OF False Inl] d False show ?thesis by simp
      next
        case (Inr nd)
        show ?thesis
        proof (cases nd)
          case Dir
          have inner: "\<forall>f \<in> set (files (scanDirectory fs currentDir (dir @ [item]) (depth + 1) ctx)).
                  f \<in> set (files ctx) \<or> withinDepth currentDir (dir @ [item]) (depth + 1) f"
            using "3.IH"(5)[OF False Inr Dir] .
          have outer: "\<forall>f \<in> set (files (scanItems fs currentDir dir depth items
                           (scanDirectory fs currentDir (dir @ [item]) (depth + 1) ctx))).
                  f \<in> set (files (scanDirectory fs currentDir (dir @ [item]) (depth + 1) ctx))
                  \<or> withinDepth currentDir dir depth f"
            using "3.IH"(6)[OF False Inr Dir] d by simp
          have eq: "scanItems fs currentDir dir depth (item # items) ctx
                    = scanItems fs currentDir dir depth items
                        (scanDirectory fs currentDir (dir @ [item]) (depth + 1) ctx)"
            using False Inr Dir by simp
          show ?thesis
            unfolding eq using inner outer withinDepth_sub by blast
        next
          case (File content)
          show ?thesis
          proof (cases "isRelevantFile item")
            case True
            have "\<forall>f \<in> set (files (scanItems fs currentDir dir depth items
                     (collectFile (path_relative currentDir (dir @ [item])) (utf8_size content) ctx))).
                  f \<in> set (files (collectFile (path_relative currentDir (dir @ [item])) (utf8_size content) ctx))
                  \<or> withinDepth currentDir dir depth f"
              using "3.IH"(3)[OF False Inr File True] d by simp
            then show ?thesis
              using withinDepth_item[OF d] False Inr File True
              by (auto simp: collectFile_def)
          next
            case nr: False
            with "3.IH"(4)[OF False Inr File nr] d False Inr File show ?thesis by simp
          qed
        qed
      qed
    qed
  qed
qed

lemma scanProject_depth:
  assumes "f \<in> set (files (scanProject pm fs currentDir))"
  shows "\<exists>segs. segs \<noteq> [] \<and> length segs \<le> 5 \<and> f = join ''/'' segs"
proof -
  have "files (detectTechnologies pm fs currentDir (initializeContext currentDir)) = []"
    by (simp add: detectTechnologies_def initializeContext_def Let_def split: sum.splits)
  with assms scan_depth(1)[of fs currentDir currentDir 0
      "detectTechnologies pm fs currentDir (initializeContext currentDir)"]
  have "withinDepth currentDir currentDir 0 f"
    by (simp add: scanProject_def Let_def)
  then show ?thesis by (auto simp: withinDepth_def path_relative_def)
qed


end
